theory Spec2Isabelle
  imports Complex_Main "HOL-Library.Sublist"
begin

section \<open>Sentiment analysis notebook: values, errors and the interpreter state\<close>

text \<open>
  The notebook \<^verbatim>\<open>chapter07-rnn/sentiment_analysis.ipynb\<close> is glue code around a
  deep-learning framework.  The embedding keeps the notebook's own control flow (the two
  loops, the driver, the model wiring and the weight initialisation) as HOL functions and
  takes the framework's numerical kernels (the recurrent cell, the loss, automatic
  differentiation, the optimizer's update rule) as parameters, so that every theorem
  holds for every behaviour of those kernels.  Floating-point numbers are read as reals.
\<close>

datatype error =
  ZeroDivisionError | AttributeError | IndexError | RuntimeError | ValueError
  | TypeError | AssertionError

text \<open>A float tensor of any rank: a rank-0 tensor is \<open>Scalar\<close>.\<close>

datatype tensor = Scalar real | Tensor "tensor list"

datatype pyval = PyNone | PyInt int | PyFloat real | PyTensor tensor | PyTuple "pyval list"

text \<open>\<^verbatim>\<open>batch.text\<close> is the pair \<^verbatim>\<open>(text, text_lengths)\<close>, since the field is built
  with \<^verbatim>\<open>include_lengths=True\<close>; \<^verbatim>\<open>text\<close> is time-major (one row per position).\<close>

record batch =
  batch_text :: "int list list \<times> int list"
  batch_label :: tensor

text \<open>A data loader: the batches one pass over it yields, and \<^verbatim>\<open>len(data_loader.dataset)\<close>.\<close>

record data_loader =
  batches :: "batch list"
  dataset_len :: nat

text \<open>
  The trace: what the code calls, in call order, and every exception raised.  \<open>CallTrain\<close>
  and \<open>CallTest\<close> mark the entry into \<open>train_model\<close> and \<open>test_model\<close> (with the loader
  passed), \<open>Stats\<close> the start of the statistics lines of a loop body; the other entries are
  calls into the framework.
\<close>

datatype event =
    NewOptimizer | NewLoss | ModelToDevice
  | CallTrain data_loader | CallTest data_loader
  | ModeTrain | ModeEval
  | ZeroGrad
  | Forward bool "int list list \<times> int list"
  | ComputeLoss tensor
  | Backward | Step | Stats
  | Raise error

datatype line = EpochLine nat nat | MetricsLine string pyval pyval

text \<open>
  The interpreter state.  \<open>params\<close> are the model's parameter tensors; the optimizer holds
  references to the same tensors, so there is one copy.  \<open>grads\<close> are their \<^verbatim>\<open>.grad\<close>
  fields, \<open>opt_state\<close> the optimizer's own state, \<open>training\<close> the module's mode flag and
  \<open>grad_enabled\<close> the framework's global gradient-tracking switch.
\<close>

record ('p, 's) world =
  params :: 'p
  grads :: "'p option"
  opt_state :: 's
  training :: bool
  grad_enabled :: bool
  stdout :: "line list"
  trace :: "event list"

text \<open>A tensor together with the autograd graph recorded for it, if any: the parameters
  and model input it was computed from and, for a loss, the target.\<close>

record 'p var =
  var_data :: tensor
  grad_fn :: "('p \<times> (int list list \<times> int list) \<times> tensor option) option"

text \<open>The objects passed to the loops, as records of the methods the code calls.\<close>

record 'p module =
  forward :: "'p \<Rightarrow> bool \<Rightarrow> int list list \<Rightarrow> int list \<Rightarrow> error + tensor"

record loss_module =
  loss_forward :: "tensor \<Rightarrow> tensor \<Rightarrow> error + tensor"

record ('p, 's) optimizer =
  opt_init :: "'p \<Rightarrow> error + 's"
  opt_zero_grad :: "'p option \<Rightarrow> 'p option"
  opt_step :: "'s \<Rightarrow> 'p \<Rightarrow> 'p option \<Rightarrow> error + ('s \<times> 'p)"

text \<open>The framework functions used by the loops that are not modelled further: the
  logistic function, the broadcasting comparison \<^verbatim>\<open>==\<close> (its mask flattened) and the
  backward pass over a recorded graph.\<close>

record 'p torch =
  torch_sigmoid :: "real \<Rightarrow> real"
  torch_eq :: "tensor \<Rightarrow> tensor \<Rightarrow> error + bool list"
  torch_autograd :: "('p \<times> (int list list \<times> int list) \<times> tensor option) \<Rightarrow> tensor
                       \<Rightarrow> 'p option \<Rightarrow> error + 'p option"

subsection \<open>Computations: state passing with exceptions\<close>

text \<open>A statement maps the state to an exception or a value, and the state it leaves;
  an exception does not undo the effects before it.\<close>

type_synonym ('a, 'p, 's) comp = "('p, 's) world \<Rightarrow> (error + 'a) \<times> ('p, 's) world"

definition ret :: "'a \<Rightarrow> ('a, 'p, 's) comp" where
  "ret x = (\<lambda>w. (Inr x, w))"

definition bindM :: "('a, 'p, 's) comp \<Rightarrow> ('a \<Rightarrow> ('b, 'p, 's) comp) \<Rightarrow> ('b, 'p, 's) comp" where
  "bindM m f = (\<lambda>w. case m w of (Inl e, w') \<Rightarrow> (Inl e, w') | (Inr x, w') \<Rightarrow> f x w')"

definition emit :: "event \<Rightarrow> (unit, 'p, 's) comp" where
  "emit ev = (\<lambda>w. (Inr (), w\<lparr>trace := trace w @ [ev]\<rparr>))"

definition raise :: "error \<Rightarrow> ('a, 'p, 's) comp" where
  "raise e = (\<lambda>w. (Inl e, w\<lparr>trace := trace w @ [Raise e]\<rparr>))"

definition lift :: "error + 'a \<Rightarrow> ('a, 'p, 's) comp" where
  "lift r = (case r of Inl e \<Rightarrow> raise e | Inr x \<Rightarrow> ret x)"

definition gets :: "(('p, 's) world \<Rightarrow> 'a) \<Rightarrow> ('a, 'p, 's) comp" where
  "gets f = (\<lambda>w. (Inr (f w), w))"

definition modify :: "(('p, 's) world \<Rightarrow> ('p, 's) world) \<Rightarrow> (unit, 'p, 's) comp" where
  "modify f = (\<lambda>w. (Inr (), f w))"

definition print_line :: "line \<Rightarrow> (unit, 'p, 's) comp" where
  "print_line l = modify (\<lambda>w. w\<lparr>stdout := stdout w @ [l]\<rparr>)"

text \<open>\<^verbatim>\<open>with torch.set_grad_enabled(v): body\<close>: the switch is set for the body and put back
  when the block is left, also by an exception.\<close>

definition with_grad_enabled :: "bool \<Rightarrow> ('a, 'p, 's) comp \<Rightarrow> ('a, 'p, 's) comp" where
  "with_grad_enabled v body =
     (\<lambda>w. case body (w\<lparr>grad_enabled := v\<rparr>) of
             (r, w') \<Rightarrow> (r, w'\<lparr>grad_enabled := grad_enabled w\<rparr>))"

subsection \<open>Tensor helpers\<close>

text \<open>\<^verbatim>\<open>.squeeze()\<close> removes every dimension of size 1.\<close>

fun squeeze :: "tensor \<Rightarrow> tensor" where
  "squeeze (Scalar x) = Scalar x"
| "squeeze (Tensor [t]) = squeeze t"
| "squeeze (Tensor ts) = Tensor (map squeeze ts)"

fun tensor_map :: "(real \<Rightarrow> real) \<Rightarrow> tensor \<Rightarrow> tensor" where
  "tensor_map f (Scalar x) = Scalar (f x)"
| "tensor_map f (Tensor ts) = Tensor (map (tensor_map f) ts)"

text \<open>\<^verbatim>\<open>torch.round\<close> rounds halves to the even integer.\<close>

definition round_half_even :: "real \<Rightarrow> real" where
  "round_half_even x =
     (let f = \<lfloor>x\<rfloor>; d = x - of_int f
      in of_int (if d < 1 / 2 then f else if 1 / 2 < d then f + 1
                 else if even f then f else f + 1))"

text \<open>\<^verbatim>\<open>torch.sum\<close> of a boolean mask: the rank-0 tensor counting its true entries, given
  by its value.\<close>

definition torch_sum :: "bool list \<Rightarrow> real" where
  "torch_sum bs = of_nat (length (filter (\<lambda>b. b) bs))"

text \<open>\<^verbatim>\<open>.item()\<close>: the Python number of a one-element tensor; a tensor of another size
  cannot be converted.\<close>

fun item :: "tensor \<Rightarrow> error + real" where
  "item (Scalar x) = Inr x"
| "item (Tensor [t]) = item t"
| "item (Tensor ts) = Inl ValueError"

text \<open>Python's \<^verbatim>\<open>+\<close> with a rank-0 tensor of value \<open>c\<close> on the right
  (\<^verbatim>\<open>current_acc += torch.sum(...)\<close>): a number becomes a rank-0 tensor, a tensor is added
  to elementwise.\<close>

fun py_add_tensor :: "pyval \<Rightarrow> real \<Rightarrow> error + pyval" where
  "py_add_tensor (PyInt a) c = Inr (PyTensor (Scalar (of_int a + c)))"
| "py_add_tensor (PyFloat a) c = Inr (PyTensor (Scalar (a + c)))"
| "py_add_tensor (PyTensor t) c = Inr (PyTensor (tensor_map (\<lambda>x. x + c) t))"
| "py_add_tensor v c = Inl TypeError"

text \<open>\<^verbatim>\<open>x.double()\<close>: a tensor method; a Python \<^verbatim>\<open>int\<close> has no such attribute.\<close>

fun double :: "pyval \<Rightarrow> error + tensor" where
  "double (PyTensor t) = Inr t"
| "double v = Inl AttributeError"

text \<open>Python's \<^verbatim>\<open>float / int\<close>.\<close>

definition py_truediv :: "real \<Rightarrow> nat \<Rightarrow> error + real" where
  "py_truediv x n = (if n = 0 then Inl ZeroDivisionError else Inr (x / of_nat n))"

text \<open>\<^verbatim>\<open>tensor / int\<close>, elementwise.\<close>

definition tensor_div :: "tensor \<Rightarrow> nat \<Rightarrow> tensor" where
  "tensor_div t n = tensor_map (\<lambda>x. x / of_nat n) t"

subsection \<open>The framework calls made by the loops\<close>

text \<open>\<^verbatim>\<open>model.train()\<close> and \<^verbatim>\<open>model.eval()\<close> set the mode flag.\<close>

definition model_train :: "(unit, 'p, 's) comp" where
  "model_train = bindM (emit ModeTrain) (\<lambda>_. modify (\<lambda>w. w\<lparr>training := True\<rparr>))"

definition model_eval :: "(unit, 'p, 's) comp" where
  "model_eval = bindM (emit ModeEval) (\<lambda>_. modify (\<lambda>w. w\<lparr>training := False\<rparr>))"

text \<open>\<^verbatim>\<open>optimizer.zero_grad()\<close>.\<close>

definition optimizer_zero_grad :: "('p, 's) optimizer \<Rightarrow> (unit, 'p, 's) comp" where
  "optimizer_zero_grad opt =
     bindM (emit ZeroGrad) (\<lambda>_. modify (\<lambda>w. w\<lparr>grads := opt_zero_grad opt (grads w)\<rparr>))"

text \<open>\<^verbatim>\<open>model(text, text_lengths)\<close>: the forward function on the current parameters, in the
  current mode; a graph is recorded only while gradient tracking is enabled.\<close>

definition model_call :: "'p module \<Rightarrow> int list list \<Rightarrow> int list \<Rightarrow> ('p var, 'p, 's) comp" where
  "model_call m text text_lengths =
     bindM (gets grad_enabled) (\<lambda>tracking.
     bindM (gets params) (\<lambda>p.
     bindM (gets training) (\<lambda>mode.
     bindM (emit (Forward tracking (text, text_lengths))) (\<lambda>_.
     bindM (lift (forward m p mode text text_lengths)) (\<lambda>y.
     ret \<lparr>var_data = y,
          grad_fn = (if tracking then Some (p, (text, text_lengths), None) else None)\<rparr>)))))"

definition var_squeeze :: "'p var \<Rightarrow> 'p var" where
  "var_squeeze v = v\<lparr>var_data := squeeze (var_data v)\<rparr>"

text \<open>\<^verbatim>\<open>loss_function(outputs, batch.label)\<close>.\<close>

definition loss_call :: "loss_module \<Rightarrow> 'p var \<Rightarrow> tensor \<Rightarrow> ('p var, 'p, 's) comp" where
  "loss_call lf outputs target =
     bindM (gets grad_enabled) (\<lambda>tracking.
     bindM (emit (ComputeLoss target)) (\<lambda>_.
     bindM (lift (loss_forward lf (var_data outputs) target)) (\<lambda>y.
     ret \<lparr>var_data = y,
          grad_fn = (if tracking
                     then map_option (\<lambda>(p, x, _). (p, x, Some target)) (grad_fn outputs)
                     else None)\<rparr>)))"

text \<open>\<^verbatim>\<open>loss.backward()\<close>: fails on a tensor without a graph, otherwise the framework
  accumulates the gradients into the \<^verbatim>\<open>.grad\<close> fields.\<close>

definition loss_backward :: "'p torch \<Rightarrow> 'p var \<Rightarrow> (unit, 'p, 's) comp" where
  "loss_backward T loss =
     bindM (emit Backward) (\<lambda>_.
       case grad_fn loss of
         None \<Rightarrow> raise RuntimeError
       | Some g \<Rightarrow>
           bindM (gets grads) (\<lambda>old.
           bindM (lift (torch_autograd T g (var_data loss) old)) (\<lambda>g'.
           modify (\<lambda>w. w\<lparr>grads := g'\<rparr>))))"

text \<open>\<^verbatim>\<open>optimizer.step()\<close>: the only statement that writes the parameters.\<close>

definition optimizer_step :: "('p, 's) optimizer \<Rightarrow> (unit, 'p, 's) comp" where
  "optimizer_step opt =
     bindM (emit Step) (\<lambda>_.
     bindM (gets opt_state) (\<lambda>s.
     bindM (gets params) (\<lambda>p.
     bindM (gets grads) (\<lambda>g.
     bindM (lift (opt_step opt s p g)) (\<lambda>(s', p').
     modify (\<lambda>w. w\<lparr>opt_state := s', params := p'\<rparr>))))))"

section \<open>The training and evaluation loops\<close>

text \<open>
  \<^verbatim>\<open>train_model(model, loss_function, optimizer, data_loader)\<close>.  The body of the
  \<^verbatim>\<open>for\<close> loop is \<open>train_batch\<close>; the loop carries \<^verbatim>\<open>current_loss\<close> (a Python float)
  and \<^verbatim>\<open>current_acc\<close> (the Python integer 0 until a first tensor is added to it).
\<close>

definition train_batch ::
  "'p module \<Rightarrow> loss_module \<Rightarrow> ('p, 's) optimizer \<Rightarrow> 'p torch \<Rightarrow> batch \<Rightarrow> real \<times> pyval
     \<Rightarrow> (real \<times> pyval, 'p, 's) comp" where
  "train_batch model loss_function optimizer T b acc =
     (case acc of (current_loss, current_acc) \<Rightarrow>
      bindM (optimizer_zero_grad optimizer) (\<lambda>_.
      case batch_text b of (text, text_lengths) \<Rightarrow>
      bindM (with_grad_enabled True
              (bindM (model_call model text text_lengths) (\<lambda>y.
               bindM (ret (var_squeeze y)) (\<lambda>outputs.
               bindM (loss_call loss_function outputs (batch_label b)) (\<lambda>loss.
               bindM (loss_backward T loss) (\<lambda>_.
               bindM (optimizer_step optimizer) (\<lambda>_.
               ret (outputs, loss)))))))) (\<lambda>(outputs, loss).
      bindM (emit Stats) (\<lambda>_.
      bindM (lift (item (var_data loss))) (\<lambda>loss_item.
      bindM (ret (current_loss + loss_item * of_nat (length text_lengths))) (\<lambda>current_loss.
      bindM (lift (torch_eq T
                    (tensor_map round_half_even
                      (tensor_map round_half_even
                        (tensor_map (torch_sigmoid T) (var_data outputs))))
                    (batch_label b))) (\<lambda>matches.
      bindM (lift (py_add_tensor current_acc (torch_sum matches))) (\<lambda>current_acc.
      ret (current_loss, current_acc)))))))))"

fun train_loop ::
  "'p module \<Rightarrow> loss_module \<Rightarrow> ('p, 's) optimizer \<Rightarrow> 'p torch \<Rightarrow> batch list \<Rightarrow> real \<times> pyval
     \<Rightarrow> (real \<times> pyval, 'p, 's) comp" where
  "train_loop model loss_function optimizer T [] acc = ret acc"
| "train_loop model loss_function optimizer T (b # bs) acc =
     bindM (train_batch model loss_function optimizer T b acc)
       (train_loop model loss_function optimizer T bs)"

definition train_model ::
  "'p module \<Rightarrow> loss_module \<Rightarrow> ('p, 's) optimizer \<Rightarrow> 'p torch \<Rightarrow> data_loader
     \<Rightarrow> (pyval, 'p, 's) comp" where
  "train_model model loss_function optimizer T data_loader =
     bindM (emit (CallTrain data_loader)) (\<lambda>_.
     bindM model_train (\<lambda>_.
     bindM (train_loop model loss_function optimizer T (batches data_loader) (0, PyInt 0))
       (\<lambda>(current_loss, current_acc).
     bindM (lift (py_truediv current_loss (dataset_len data_loader))) (\<lambda>total_loss.
     bindM (lift (double current_acc)) (\<lambda>d.
     bindM (ret (tensor_div d (dataset_len data_loader))) (\<lambda>total_acc.
     bindM (print_line (MetricsLine ''Train'' (PyFloat total_loss) (PyTensor total_acc))) (\<lambda>_.
     ret PyNone)))))))"

text \<open>\<^verbatim>\<open>test_model(model, loss_function, data_loader)\<close>.\<close>

definition test_batch ::
  "'p module \<Rightarrow> loss_module \<Rightarrow> 'p torch \<Rightarrow> batch \<Rightarrow> real \<times> pyval
     \<Rightarrow> (real \<times> pyval, 'p, 's) comp" where
  "test_batch model loss_function T b acc =
     (case acc of (current_loss, current_acc) \<Rightarrow>
      case batch_text b of (text, text_lengths) \<Rightarrow>
      bindM (with_grad_enabled False
              (bindM (model_call model text text_lengths) (\<lambda>y.
               bindM (ret (var_squeeze y)) (\<lambda>outputs.
               bindM (loss_call loss_function outputs (batch_label b)) (\<lambda>loss.
               ret (outputs, loss)))))) (\<lambda>(outputs, loss).
      bindM (emit Stats) (\<lambda>_.
      bindM (lift (item (var_data loss))) (\<lambda>loss_item.
      bindM (ret (current_loss + loss_item * of_nat (length text_lengths))) (\<lambda>current_loss.
      bindM (lift (torch_eq T
                    (tensor_map round_half_even
                      (tensor_map round_half_even
                        (tensor_map (torch_sigmoid T) (var_data outputs))))
                    (batch_label b))) (\<lambda>matches.
      bindM (lift (py_add_tensor current_acc (torch_sum matches))) (\<lambda>current_acc.
      ret (current_loss, current_acc))))))))"

fun test_loop ::
  "'p module \<Rightarrow> loss_module \<Rightarrow> 'p torch \<Rightarrow> batch list \<Rightarrow> real \<times> pyval
     \<Rightarrow> (real \<times> pyval, 'p, 's) comp" where
  "test_loop model loss_function T [] acc = ret acc"
| "test_loop model loss_function T (b # bs) acc =
     bindM (test_batch model loss_function T b acc) (test_loop model loss_function T bs)"

definition test_model ::
  "'p module \<Rightarrow> loss_module \<Rightarrow> 'p torch \<Rightarrow> data_loader \<Rightarrow> (pyval, 'p, 's) comp" where
  "test_model model loss_function T data_loader =
     bindM (emit (CallTest data_loader)) (\<lambda>_.
     bindM model_eval (\<lambda>_.
     bindM (test_loop model loss_function T (batches data_loader) (0, PyInt 0))
       (\<lambda>(current_loss, current_acc).
     bindM (lift (py_truediv current_loss (dataset_len data_loader))) (\<lambda>total_loss.
     bindM (lift (double current_acc)) (\<lambda>d.
     bindM (ret (tensor_div d (dataset_len data_loader))) (\<lambda>total_acc.
     bindM (print_line (MetricsLine ''Test'' (PyFloat total_loss) (PyTensor total_acc))) (\<lambda>_.
     ret (PyTuple [PyFloat total_loss, PyTensor total_acc]))))))))"

section \<open>The top-level driver\<close>

text \<open>
  The last cell: \<^verbatim>\<open>torch.optim.Adam(model.parameters())\<close>, \<^verbatim>\<open>BCEWithLogitsLoss()\<close>,
  \<^verbatim>\<open>model.to(device)\<close> (which moves the parameter tensors and keeps their values), then
  \<^verbatim>\<open>for epoch in range(5)\<close>.  The optimizer class and the loss are the framework's and come
  in as \<open>adam\<close> and \<open>bce\<close>.
\<close>

definition new_optimizer :: "('p, 's) optimizer \<Rightarrow> (unit, 'p, 's) comp" where
  "new_optimizer adam =
     bindM (emit NewOptimizer) (\<lambda>_.
     bindM (gets params) (\<lambda>p.
     bindM (lift (opt_init adam p)) (\<lambda>s.
     modify (\<lambda>w. w\<lparr>opt_state := s\<rparr>))))"

definition epoch_body ::
  "'p module \<Rightarrow> loss_module \<Rightarrow> ('p, 's) optimizer \<Rightarrow> 'p torch \<Rightarrow> data_loader \<Rightarrow> data_loader
     \<Rightarrow> nat \<Rightarrow> (unit, 'p, 's) comp" where
  "epoch_body model loss_function optimizer T train_iter test_iter epoch =
     bindM (print_line (EpochLine (epoch + 1) 5)) (\<lambda>_.
     bindM (train_model model loss_function optimizer T train_iter) (\<lambda>_.
     bindM (test_model model loss_function T test_iter) (\<lambda>_.
     ret ())))"

fun epoch_loop ::
  "'p module \<Rightarrow> loss_module \<Rightarrow> ('p, 's) optimizer \<Rightarrow> 'p torch \<Rightarrow> data_loader \<Rightarrow> data_loader
     \<Rightarrow> nat list \<Rightarrow> (unit, 'p, 's) comp" where
  "epoch_loop model loss_function optimizer T train_iter test_iter [] = ret ()"
| "epoch_loop model loss_function optimizer T train_iter test_iter (epoch # rest) =
     bindM (epoch_body model loss_function optimizer T train_iter test_iter epoch) (\<lambda>_.
     epoch_loop model loss_function optimizer T train_iter test_iter rest)"

definition driver ::
  "'p module \<Rightarrow> ('p, 's) optimizer \<Rightarrow> loss_module \<Rightarrow> 'p torch \<Rightarrow> data_loader \<Rightarrow> data_loader
     \<Rightarrow> (unit, 'p, 's) comp" where
  "driver model adam bce T train_iter test_iter =
     bindM (new_optimizer adam) (\<lambda>_.
     bindM (emit NewLoss) (\<lambda>_.
     bindM (emit ModelToDevice) (\<lambda>_.
     epoch_loop model bce adam T train_iter test_iter [0..<5])))"

section \<open>The model and its initialisation\<close>

type_synonym vec = "real list"
type_synonym matrix = "real list list"

definition EMBEDDING_SIZE :: nat where
  "EMBEDDING_SIZE = 100"

definition HIDDEN_SIZE :: nat where
  "HIDDEN_SIZE = 256"

text \<open>Sequencing of fallible pure steps: the first exception ends the computation.\<close>

definition bindE :: "error + 'a \<Rightarrow> ('a \<Rightarrow> error + 'b) \<Rightarrow> error + 'b" where
  "bindE r f = (case r of Inl e \<Rightarrow> Inl e | Inr x \<Rightarrow> f x)"

fun traverse :: "('a \<Rightarrow> error + 'b) \<Rightarrow> 'a list \<Rightarrow> error + 'b list" where
  "traverse f [] = Inr []"
| "traverse f (x # xs) = bindE (f x) (\<lambda>y. bindE (traverse f xs) (\<lambda>ys. Inr (y # ys)))"

text \<open>
  The parameters of \<^verbatim>\<open>LSTMModel\<close>: the embedding table (one row per vocabulary entry),
  the weights of \<^verbatim>\<open>torch.nn.LSTM\<close> (the framework's, of an unspecified type \<open>'w\<close>), and the
  weight (one row per output feature) and bias of the linear layer.
\<close>

record 'w lstm_params =
  embedding_weight :: matrix
  rnn_weights :: 'w
  fc_weight :: matrix
  fc_bias :: vec

text \<open>
  The framework kernels the model is wired from, as parameters: the packing proper
  (producing a packed sequence of type \<open>'k\<close>) and the recurrent layer, which returns the
  packed output and the pair of final hidden and cell states, each of shape
  \<^verbatim>\<open>[1, batch, hidden_size]\<close>.  \<open>initial\<close> stands for the random initial values the layer
  constructors draw.
\<close>

record ('w, 'k) nn =
  pack_impl :: "real list list list \<Rightarrow> int list \<Rightarrow> error + 'k"
  nn_lstm :: "'w \<Rightarrow> 'k \<Rightarrow> error + ('k \<times> real list list list \<times> real list list list)"

record 'w initial =
  embedding_initial :: "nat \<Rightarrow> nat \<Rightarrow> real"
  lstm_initial :: "nat \<Rightarrow> nat \<Rightarrow> 'w"
  linear_weight_initial :: "nat \<Rightarrow> nat \<Rightarrow> real"
  linear_bias_initial :: "nat \<Rightarrow> real"

definition matrix_of :: "nat \<Rightarrow> nat \<Rightarrow> (nat \<Rightarrow> nat \<Rightarrow> real) \<Rightarrow> matrix" where
  "matrix_of rows cols f = map (\<lambda>i. map (f i) [0..<cols]) [0..<rows]"

text \<open>\<^verbatim>\<open>torch.nn.Embedding(num_embeddings, embedding_dim, padding_idx)\<close>: the constructor
  asserts that a positive padding index is within the table, and zeroes that row; with
  the index 0 and an empty table there is no assertion and the zeroing itself fails.\<close>

definition Embedding ::
  "'w initial \<Rightarrow> nat \<Rightarrow> nat \<Rightarrow> nat \<Rightarrow> error + matrix" where
  "Embedding rng num_embeddings embedding_dim padding_idx =
     (if 0 < padding_idx \<and> \<not> padding_idx < num_embeddings then Inl AssertionError
      else if \<not> padding_idx < num_embeddings then Inl IndexError
      else Inr ((matrix_of num_embeddings embedding_dim (embedding_initial rng))
                  [padding_idx := replicate embedding_dim 0]))"

text \<open>\<^verbatim>\<open>LSTMModel.__init__(vocab_size, embedding_size, hidden_size, output_size, pad_idx)\<close>.\<close>

definition LSTMModel_init ::
  "'w initial \<Rightarrow> nat \<Rightarrow> nat \<Rightarrow> nat \<Rightarrow> nat \<Rightarrow> nat \<Rightarrow> error + 'w lstm_params" where
  "LSTMModel_init rng vocab_size embedding_size hidden_size output_size pad_idx =
     bindE (Embedding rng vocab_size embedding_size pad_idx) (\<lambda>embedding.
     Inr \<lparr>embedding_weight = embedding,
          rnn_weights = lstm_initial rng embedding_size hidden_size,
          fc_weight = matrix_of output_size hidden_size (linear_weight_initial rng),
          fc_bias = map (linear_bias_initial rng) [0..<output_size]\<rparr>)"

text \<open>The embedding layer applied to a tensor of token indices; an index outside the
  table is an \<^verbatim>\<open>IndexError\<close>.\<close>

definition nn_embedding :: "matrix \<Rightarrow> int list list \<Rightarrow> error + real list list list" where
  "nn_embedding weight idx =
     traverse (traverse (\<lambda>i. if 0 \<le> i \<and> i < int (length weight)
                              then Inr (weight ! nat i) else Inl IndexError)) idx"

text \<open>
  \<^verbatim>\<open>torch.nn.utils.rnn.pack_padded_sequence(input, lengths, batch_first=False,
  enforce_sorted=True)\<close>.  Modelled from the framework's documentation: every length
  must be greater than 0, and with \<^verbatim>\<open>enforce_sorted\<close> the lengths must be sorted in
  decreasing order (equal neighbours allowed); otherwise the call raises a
  \<^verbatim>\<open>RuntimeError\<close>.  Everything else it does is \<open>pack_impl\<close>.
\<close>

definition pack_padded_sequence ::
  "('w, 'k) nn \<Rightarrow> real list list list \<Rightarrow> int list \<Rightarrow> bool \<Rightarrow> error + 'k" where
  "pack_padded_sequence N input lengths enforce_sorted =
     (if (\<exists>l \<in> set lengths. l \<le> 0) then Inl RuntimeError
      else if enforce_sorted \<and> \<not> sorted_wrt (\<lambda>a b. b \<le> a) lengths then Inl RuntimeError
      else pack_impl N input lengths)"

text \<open>\<^verbatim>\<open>torch.nn.Linear\<close> on one vector, \<open>y = W x + b\<close>, and on the last dimension of a
  rank-3 tensor; a vector of the wrong size is a shape error.\<close>

definition linear :: "matrix \<Rightarrow> vec \<Rightarrow> vec \<Rightarrow> error + vec" where
  "linear W b x =
     (if \<forall>row \<in> set W. length row = length x
      then Inr (map2 (\<lambda>row c. sum_list (map2 (*) row x) + c) W b)
      else Inl RuntimeError)"

definition tensor3 :: "real list list list \<Rightarrow> tensor" where
  "tensor3 x = Tensor (map (\<lambda>l. Tensor (map (\<lambda>v. Tensor (map Scalar v)) l)) x)"

definition nn_linear :: "matrix \<Rightarrow> vec \<Rightarrow> real list list list \<Rightarrow> error + tensor" where
  "nn_linear W b x = bindE (traverse (traverse (linear W b)) x) (\<lambda>y. Inr (tensor3 y))"

text \<open>\<^verbatim>\<open>LSTMModel.forward(text_sequence, text_lengths)\<close>; the call to
  \<^verbatim>\<open>pack_padded_sequence\<close> passes no \<^verbatim>\<open>enforce_sorted\<close>, so the default applies.\<close>

definition LSTMModel_forward ::
  "('w, 'k) nn \<Rightarrow> 'w lstm_params \<Rightarrow> int list list \<Rightarrow> int list \<Rightarrow> error + tensor" where
  "LSTMModel_forward N self text_sequence text_lengths =
     bindE (nn_embedding (embedding_weight self) text_sequence) (\<lambda>embeddings.
     bindE (pack_padded_sequence N embeddings text_lengths True) (\<lambda>packed_sequence.
     bindE (nn_lstm N (rnn_weights self) packed_sequence) (\<lambda>(packed_output, hidden, cell).
     nn_linear (fc_weight self) (fc_bias self) hidden)))"

text \<open>The model as the loops receive it.  None of its three layers depends on the
  training mode (the recurrent layer is built with the default zero dropout).\<close>

definition LSTMModel :: "('w, 'k) nn \<Rightarrow> 'w lstm_params module" where
  "LSTMModel N = \<lparr>forward = (\<lambda>p mode text_sequence text_lengths.
                     LSTMModel_forward N p text_sequence text_lengths)\<rparr>"

subsection \<open>The vocabulary and the fourth cell\<close>

text \<open>\<^verbatim>\<open>TEXT.vocab\<close>: \<^verbatim>\<open>itos\<close>, \<^verbatim>\<open>stoi\<close> (a dictionary with a default, hence total) and
  \<^verbatim>\<open>vectors\<close>, one pretrained vector per entry.\<close>

record vocab =
  itos :: "string list"
  stoi :: "string \<Rightarrow> nat"
  vectors :: matrix

definition pad_token :: string where
  "pad_token = ''<pad>''"

definition unk_token :: string where
  "unk_token = ''<unk>''"

text \<open>Broadcasting a row to a given width, \<^verbatim>\<open>Tensor.copy_\<close> on matrices (\<open>tensor_copy\<close>) and the assignment
  \<^verbatim>\<open>weight.data[i] = row\<close>.\<close>

definition broadcast_row :: "vec \<Rightarrow> nat \<Rightarrow> error + vec" where
  "broadcast_row r n =
     (if length r = n then Inr r
      else if length r = 1 then Inr (replicate n (hd r))
      else Inl RuntimeError)"

definition tensor_copy :: "matrix \<Rightarrow> matrix \<Rightarrow> error + matrix" where
  "tensor_copy dst src =
     (if length src = length dst
      then traverse (\<lambda>(d, s). broadcast_row s (length d)) (zip dst src)
      else if length src = 1
      then traverse (\<lambda>d. broadcast_row (hd src) (length d)) dst
      else Inl RuntimeError)"

definition set_row :: "matrix \<Rightarrow> nat \<Rightarrow> vec \<Rightarrow> error + matrix" where
  "set_row M i row =
     (if i < length M
      then bindE (broadcast_row row (length (M ! i))) (\<lambda>r. Inr (M[i := r]))
      else Inl IndexError)"

text \<open>Cell 4: the model is instantiated with \<^verbatim>\<open>output_size=1\<close>, the pretrained vectors are
  copied into the embedding table, and the rows of the unknown and padding tokens are
  overwritten with \<^verbatim>\<open>torch.zeros(EMBEDDING_SIZE)\<close>.\<close>

definition make_model :: "'w initial \<Rightarrow> vocab \<Rightarrow> error + 'w lstm_params" where
  "make_model rng TEXT_vocab =
     bindE (LSTMModel_init rng (length (itos TEXT_vocab)) EMBEDDING_SIZE HIDDEN_SIZE 1
              (stoi TEXT_vocab pad_token)) (\<lambda>model.
     bindE (tensor_copy (embedding_weight model) (vectors TEXT_vocab)) (\<lambda>w1.
     bindE (set_row w1 (stoi TEXT_vocab unk_token) (replicate EMBEDDING_SIZE 0)) (\<lambda>w2.
     bindE (set_row w2 (stoi TEXT_vocab pad_token) (replicate EMBEDDING_SIZE 0)) (\<lambda>w3.
     Inr (model\<lparr>embedding_weight := w3\<rparr>)))))"

section \<open>The data iterators\<close>

text \<open>
  Cell 2 builds both iterators with
  \<^verbatim>\<open>BucketIterator.splits((train, test), sort_within_batch=True, batch_size=64)\<close>.
  The iterator is the text library's, not the notebook's.  Modelled from the framework's
  documented behaviour: the examples' sort key is the number of tokens; the first split
  is a training iterator (shuffled, bucketed in pools of a hundred batches), the other
  one iterates over the sorted data; with \<^verbatim>\<open>sort_within_batch\<close> every minibatch is put in
  decreasing order of the key before it is turned into tensors; a text field with
  \<^verbatim>\<open>include_lengths\<close> pads to the longest text and reports the unpadded lengths.  The
  random shuffles are arbitrary functions here.
\<close>

record example =
  ex_text :: "string list"
  ex_label :: string

definition example_sort_key :: "example \<Rightarrow> nat" where
  "example_sort_key ex = length (ex_text ex)"

text \<open>Python's \<^verbatim>\<open>list.sort(key=k, reverse=True)\<close>: stable, in decreasing order.\<close>

definition sort_reverse :: "('a \<Rightarrow> nat) \<Rightarrow> 'a list \<Rightarrow> 'a list" where
  "sort_reverse k xs = rev (sort_key k (rev xs))"

text \<open>Consecutive minibatches of \<open>n\<close> examples, the last one possibly shorter.  (With
  \<open>n = 0\<close> the library's generator yields an empty minibatch and then one example at a
  time; the notebook's sizes are 64 and, for the pools, 6400.)\<close>

fun batch_chunks :: "nat \<Rightarrow> 'a list \<Rightarrow> 'a list list" where
  "batch_chunks n [] = []"
| "batch_chunks n (x # xs) =
     (if n = 0 then [] # map (\<lambda>y. [y]) (x # xs)
      else take n (x # xs) # batch_chunks n (drop n (x # xs)))"

record shuffler =
  shuffle_data :: "example list \<Rightarrow> example list"
  shuffle_batches :: "example list list \<Rightarrow> example list list"

text \<open>The minibatches of one pass, for \<^verbatim>\<open>batch_size=64\<close>.\<close>

definition create_batches ::
  "bool \<Rightarrow> bool \<Rightarrow> shuffler \<Rightarrow> example list \<Rightarrow> example list list" where
  "create_batches sorted_data sort_within_batch rnd dataset =
     (if sorted_data then batch_chunks 64 (sort_key example_sort_key dataset)
      else concat (map (\<lambda>pool. shuffle_batches rnd
                          (batch_chunks 64
                             (if sort_within_batch then sort_key example_sort_key pool
                              else pool)))
                    (batch_chunks (64 * 100) (shuffle_data rnd dataset))))"

definition process_text :: "vocab \<Rightarrow> string list list \<Rightarrow> int list list \<times> int list" where
  "process_text v xs =
     (let max_len = fold max (map length xs) 0;
          padded = map (\<lambda>x. x @ replicate (max_len - length x) pad_token) xs;
          lengths = map (\<lambda>x. int (length x)) xs
      in (transpose (map (map (\<lambda>tok. int (stoi v tok))) padded), lengths))"

definition Batch :: "vocab \<Rightarrow> (string \<Rightarrow> nat) \<Rightarrow> example list \<Rightarrow> batch" where
  "Batch v label_stoi minibatch =
     \<lparr>batch_text = process_text v (map ex_text minibatch),
      batch_label = Tensor (map (\<lambda>ex. Scalar (of_nat (label_stoi (ex_label ex)))) minibatch)\<rparr>"

definition BucketIterator ::
  "bool \<Rightarrow> bool \<Rightarrow> shuffler \<Rightarrow> vocab \<Rightarrow> (string \<Rightarrow> nat) \<Rightarrow> example list \<Rightarrow> data_loader" where
  "BucketIterator is_train sort_within_batch rnd v label_stoi dataset =
     \<lparr>batches =
        map (\<lambda>minibatch.
               Batch v label_stoi
                 (if sort_within_batch
                  then (if \<not> is_train then rev minibatch
                        else sort_reverse example_sort_key minibatch)
                  else minibatch))
            (create_batches (\<not> is_train) sort_within_batch rnd dataset),
      dataset_len = length dataset\<rparr>"

text \<open>The two iterators of the notebook.\<close>

definition train_iter ::
  "shuffler \<Rightarrow> vocab \<Rightarrow> (string \<Rightarrow> nat) \<Rightarrow> example list \<Rightarrow> data_loader" where
  "train_iter rnd v label_stoi train = BucketIterator True True rnd v label_stoi train"

definition test_iter ::
  "shuffler \<Rightarrow> vocab \<Rightarrow> (string \<Rightarrow> nat) \<Rightarrow> example list \<Rightarrow> data_loader" where
  "test_iter rnd v label_stoi test = BucketIterator False True rnd v label_stoi test"

section \<open>Specification vocabulary\<close>

text \<open>The calls one pass of the training loop body makes for a batch, in the order the
  specification gives them, and those of the evaluation loop body.\<close>

definition train_events :: "batch \<Rightarrow> event list" where
  "train_events b =
     [ZeroGrad, Forward True (batch_text b), ComputeLoss (batch_label b), Backward, Step, Stats]"

definition test_events :: "batch \<Rightarrow> event list" where
  "test_events b = [Forward False (batch_text b), ComputeLoss (batch_label b), Stats]"

definition train_model_events :: "data_loader \<Rightarrow> event list" where
  "train_model_events dl = [CallTrain dl, ModeTrain] @ concat (map train_events (batches dl))"

definition test_model_events :: "data_loader \<Rightarrow> event list" where
  "test_model_events dl = [CallTest dl, ModeEval] @ concat (map test_events (batches dl))"

definition epoch_events :: "data_loader \<Rightarrow> data_loader \<Rightarrow> event list" where
  "epoch_events tr te = train_model_events tr @ test_model_events te"

definition driver_events :: "data_loader \<Rightarrow> data_loader \<Rightarrow> event list" where
  "driver_events tr te =
     [NewOptimizer, NewLoss, ModelToDevice] @ concat (replicate 5 (epoch_events tr te))"

text \<open>
  A computation follows a script of events from a state when a normal return has
  appended exactly the script to the trace, and an exception has appended a prefix of
  the script and then the exception's own entry.
\<close>

definition follows :: "('a, 'p, 's) comp \<Rightarrow> event list \<Rightarrow> ('p, 's) world \<Rightarrow> bool" where
  "follows m evs w =
     (case m w of
        (Inr x, w') \<Rightarrow> trace w' = trace w @ evs
      | (Inl e, w') \<Rightarrow> (\<exists>pre. prefix pre evs \<and> trace w' = trace w @ pre @ [Raise e]))"


fun top_level :: "event \<Rightarrow> bool" where
  "top_level NewOptimizer = True"
| "top_level NewLoss = True"
| "top_level (CallTrain dl) = True"
| "top_level (CallTest dl) = True"
| "top_level ev = False"

text \<open>A computation that leaves the model's parameters, their gradients and the
  optimizer's state as they were, and one that prints nothing.\<close>

definition frame :: "('a, 'p, 's) comp \<Rightarrow> bool" where
  "frame m = (\<forall>w. params (snd (m w)) = params w \<and> grads (snd (m w)) = grads w
                 \<and> opt_state (snd (m w)) = opt_state w)"

definition silent :: "('a, 'p, 's) comp \<Rightarrow> bool" where
  "silent m = (\<forall>w. stdout (snd (m w)) = stdout w)"

text \<open>
  The metrics as the specification describes them, as pure functions of the parameters
  the forward pass reads.  One batch: outputs, loss, loss sum (batch loss times batch
  size) and accuracy count (rounded sigmoid outputs equal to the labels).
\<close>

definition batch_statistics ::
  "'p module \<Rightarrow> loss_module \<Rightarrow> 'p torch \<Rightarrow> bool \<Rightarrow> 'p \<Rightarrow> batch \<Rightarrow> real \<times> pyval
     \<Rightarrow> error + real \<times> pyval" where
  "batch_statistics model lf T mode p b acc =
     (case acc of (loss_sum, acc_sum) \<Rightarrow>
      case batch_text b of (text, text_lengths) \<Rightarrow>
      bindE (forward model p mode text text_lengths) (\<lambda>y.
      bindE (loss_forward lf (squeeze y) (batch_label b)) (\<lambda>loss.
      bindE (item loss) (\<lambda>loss_item.
      bindE (torch_eq T
              (tensor_map round_half_even
                (tensor_map round_half_even (tensor_map (torch_sigmoid T) (squeeze y))))
              (batch_label b)) (\<lambda>matches.
      bindE (py_add_tensor acc_sum (torch_sum matches)) (\<lambda>acc_sum'.
      Inr (loss_sum + loss_item * of_nat (length text_lengths), acc_sum')))))))"

text \<open>A pass over batches, each paired with the parameters its forward pass reads.\<close>

fun statistics_along ::
  "'p module \<Rightarrow> loss_module \<Rightarrow> 'p torch \<Rightarrow> bool \<Rightarrow> ('p \<times> batch) list \<Rightarrow> real \<times> pyval
     \<Rightarrow> error + real \<times> pyval" where
  "statistics_along model lf T mode [] acc = Inr acc"
| "statistics_along model lf T mode ((p, b) # rest) acc =
     bindE (batch_statistics model lf T mode p b acc) (statistics_along model lf T mode rest)"

text \<open>The totals: both sums divided by the size of the data set.\<close>

definition epoch_totals :: "real \<times> pyval \<Rightarrow> nat \<Rightarrow> error + real \<times> tensor" where
  "epoch_totals acc n =
     (case acc of (loss_sum, acc_sum) \<Rightarrow>
      bindE (py_truediv loss_sum n) (\<lambda>total_loss.
      bindE (double acc_sum) (\<lambda>d.
      Inr (total_loss, tensor_div d n))))"

text \<open>The metrics of a pass over a loader whose batches are run on the parameters
  \<open>ps\<close>, one entry per batch.\<close>

definition epoch_metrics ::
  "'p module \<Rightarrow> loss_module \<Rightarrow> 'p torch \<Rightarrow> bool \<Rightarrow> 'p list \<Rightarrow> data_loader
     \<Rightarrow> error + real \<times> tensor" where
  "epoch_metrics model lf T mode ps dl =
     bindE (statistics_along model lf T mode (zip ps (batches dl)) (0, PyInt 0)) (\<lambda>running.
     epoch_totals running (dataset_len dl))"

text \<open>The parameters each batch of a training pass is run on: those left by the
  optimizer steps before it (the pass stops at the first exception).\<close>

fun train_trajectory ::
  "'p module \<Rightarrow> loss_module \<Rightarrow> ('p, 's) optimizer \<Rightarrow> 'p torch \<Rightarrow> batch list \<Rightarrow> real \<times> pyval
     \<Rightarrow> ('p, 's) world \<Rightarrow> 'p list" where
  "train_trajectory model lf opt T [] acc w = []"
| "train_trajectory model lf opt T (b # bs) acc w =
     params w # (case train_batch model lf opt T b acc w of
                   (Inr acc', w') \<Rightarrow> train_trajectory model lf opt T bs acc' w'
                 | (Inl e, w') \<Rightarrow> [])"

text \<open>
  One pass of the training loop body as the specification orders it, as a pure function
  of the accumulators and of the parameters, their gradients and the optimizer's state:
  the gradients are reset; the forward pass runs on the parameters; the loss is computed
  from its output; the backward pass accumulates into the reset gradients; the optimizer
  steps from the old parameters with the new gradients; the statistics are those of the
  forward pass just made, on the parameters before the step.
\<close>

definition train_step ::
  "'p module \<Rightarrow> loss_module \<Rightarrow> ('p, 's) optimizer \<Rightarrow> 'p torch \<Rightarrow> bool \<Rightarrow> batch
     \<Rightarrow> (real \<times> pyval) \<times> 'p \<times> 'p option \<times> 's
     \<Rightarrow> error + (real \<times> pyval) \<times> 'p \<times> 'p option \<times> 's" where
  "train_step model lf opt T mode b st =
     (case st of (acc, p, g, s) \<Rightarrow>
      case batch_text b of (text, text_lengths) \<Rightarrow>
      bindE (Inr (opt_zero_grad opt g)) (\<lambda>zeroed.
      bindE (forward model p mode text text_lengths) (\<lambda>y.
      bindE (loss_forward lf (squeeze y) (batch_label b)) (\<lambda>loss.
      bindE (torch_autograd T (p, (text, text_lengths), Some (batch_label b)) loss zeroed)
        (\<lambda>g'.
      bindE (opt_step opt s p g') (\<lambda>(s', p').
      bindE (batch_statistics model lf T mode p b acc) (\<lambda>acc'.
      Inr (acc', p', g', s'))))))))"

fun train_steps ::
  "'p module \<Rightarrow> loss_module \<Rightarrow> ('p, 's) optimizer \<Rightarrow> 'p torch \<Rightarrow> bool \<Rightarrow> batch list
     \<Rightarrow> (real \<times> pyval) \<times> 'p \<times> 'p option \<times> 's
     \<Rightarrow> error + (real \<times> pyval) \<times> 'p \<times> 'p option \<times> 's" where
  "train_steps model lf opt T mode [] st = Inr st"
| "train_steps model lf opt T mode (b # bs) st =
     bindE (train_step model lf opt T mode b st) (train_steps model lf opt T mode bs)"

text \<open>
  The epochs as the specification orders them: in each, the epoch line, then
  \<open>train_model\<close> on the first loader, then \<open>test_model\<close> on the second, each starting in the
  state the call before it has left; the first exception ends the run.
\<close>

fun run_epochs ::
  "'p module \<Rightarrow> loss_module \<Rightarrow> ('p, 's) optimizer \<Rightarrow> 'p torch \<Rightarrow> data_loader \<Rightarrow> data_loader
     \<Rightarrow> nat list \<Rightarrow> (unit, 'p, 's) comp" where
  "run_epochs model lf opt T tr te [] w = (Inr (), w)"
| "run_epochs model lf opt T tr te (epoch # rest) w =
     (case train_model model lf opt T tr (w\<lparr>stdout := stdout w @ [EpochLine (epoch + 1) 5]\<rparr>) of
        (Inl e, w1) \<Rightarrow> (Inl e, w1)
      | (Inr v1, w1) \<Rightarrow>
          (case test_model model lf T te w1 of
             (Inl e, w2) \<Rightarrow> (Inl e, w2)
           | (Inr v2, w2) \<Rightarrow> run_epochs model lf opt T tr te rest w2))"


text \<open>The states in which the loops of \<open>train_model\<close> and \<open>test_model\<close> start.\<close>

definition enter_train :: "data_loader \<Rightarrow> ('p, 's) world \<Rightarrow> ('p, 's) world" where
  "enter_train dl w = w\<lparr>trace := trace w @ [CallTrain dl, ModeTrain], training := True\<rparr>"

definition enter_test :: "data_loader \<Rightarrow> ('p, 's) world \<Rightarrow> ('p, 's) world" where
  "enter_test dl w = w\<lparr>trace := trace w @ [CallTest dl, ModeEval], training := False\<rparr>"

text \<open>One logit per sequence: the shape \<^verbatim>\<open>[1, batch, 1]\<close> of the model's output.\<close>

definition single_logits :: "tensor \<Rightarrow> bool" where
  "single_logits y =
     (\<exists>layers. y = Tensor (map (\<lambda>l. Tensor (map (\<lambda>x. Tensor [Scalar x]) l)) layers))"

text \<open>The three stages of the forward pass named by the specification.\<close>

definition embedding_lookup :: "'w lstm_params \<Rightarrow> int list list \<Rightarrow> error + real list list list" where
  "embedding_lookup p token_indices = nn_embedding (embedding_weight p) token_indices"

definition recurrent_encoder ::
  "('w, 'k) nn \<Rightarrow> 'w lstm_params \<Rightarrow> int list \<Rightarrow> real list list list
     \<Rightarrow> error + real list list list" where
  "recurrent_encoder N p lengths embeddings =
     bindE (pack_padded_sequence N embeddings lengths True) (\<lambda>packed.
     bindE (nn_lstm N (rnn_weights p) packed) (\<lambda>(output, hidden, cell). Inr hidden))"

definition linear_projection :: "'w lstm_params \<Rightarrow> real list list list \<Rightarrow> error + tensor" where
  "linear_projection p hidden = nn_linear (fc_weight p) (fc_bias p) hidden"

text \<open>What the vocabulary builder guarantees for \<^verbatim>\<open>GloVe(name='6B', dim=100)\<close>: one
  vector of dimension 100 per entry, and entries for the two special tokens.\<close>

definition vocab_ok :: "vocab \<Rightarrow> bool" where
  "vocab_ok v =
     (length (vectors v) = length (itos v)
      \<and> list_all (\<lambda>row. length row = 100) (vectors v)
      \<and> stoi v unk_token < length (itos v)
      \<and> stoi v pad_token < length (itos v))"

section \<open>A small concrete instance\<close>

text \<open>
  A one-weight model, a squared-error loss, a gradient-descent optimizer and a
  piecewise-linear stand-in for the logistic function, small enough to run the loops by
  rewriting.  The theorems below hold for every instance; this one shows that their
  hypotheses can be met.
\<close>

fun flatten :: "tensor \<Rightarrow> real list" where
  "flatten (Scalar x) = [x]"
| "flatten (Tensor ts) = concat (map flatten ts)"

definition ex_model :: "real module" where
  "ex_model = \<lparr>forward = (\<lambda>p mode text_sequence text_lengths.
       if text_lengths = [] then Inl ValueError
       else Inr (Tensor [Tensor (map (\<lambda>l. Tensor [Scalar (p * of_int l)]) text_lengths)]))\<rparr>"

definition ex_loss :: loss_module where
  "ex_loss = \<lparr>loss_forward = (\<lambda>y target.
       Inr (Scalar (sum_list (map2 (\<lambda>a b. (a - b) * (a - b)) (flatten y) (flatten target)))))\<rparr>"

definition ex_optimizer :: "(real, nat) optimizer" where
  "ex_optimizer =
     \<lparr>opt_init = (\<lambda>p. Inr 0),
      opt_zero_grad = (\<lambda>g. None),
      opt_step = (\<lambda>s p g. case g of None \<Rightarrow> Inr (Suc s, p) | Some d \<Rightarrow> Inr (Suc s, p - d))\<rparr>"

definition ex_torch :: "real torch" where
  "ex_torch =
     \<lparr>torch_sigmoid = (\<lambda>x. if x \<le> - 1 then 0 else if 1 \<le> x then 1 else (x + 1) / 2),
      torch_eq = (\<lambda>a b. if length (flatten a) = length (flatten b)
                         then Inr (map2 (\<lambda>x y. x = y) (flatten a) (flatten b))
                         else Inl RuntimeError),
      torch_autograd = (\<lambda>g loss old. Inr (Some (case old of None \<Rightarrow> 1 | Some d \<Rightarrow> d + 1)))\<rparr>"

definition ex_batch :: batch where
  "ex_batch = \<lparr>batch_text = ([[3, 4], [5, 1]], [2, 1]),
               batch_label = Tensor [Scalar 1, Scalar 0]\<rparr>"

definition ex_loader :: data_loader where
  "ex_loader = \<lparr>batches = [ex_batch], dataset_len = 2\<rparr>"

definition ex_world :: "(real, nat) world" where
  "ex_world = \<lparr>params = 0, grads = None, opt_state = 0, training = False,
               grad_enabled = True, stdout = [], trace = []\<rparr>"


definition ex_empty_loader :: "nat \<Rightarrow> data_loader" where
  "ex_empty_loader n = \<lparr>batches = [], dataset_len = n\<rparr>"

text \<open>A three-word vocabulary with vectors of dimension 100, constant initial values,
  and recurrent kernels that keep the batch structure: the packed sequence is the pair of
  its inputs and the final hidden state holds each sequence's length 256 times.\<close>

definition ex_vocab :: vocab where
  "ex_vocab =
     \<lparr>itos = [''<unk>'', ''<pad>'', ''film''],
      stoi = (\<lambda>s. if s = ''<pad>'' then 1 else if s = ''film'' then 2 else 0),
      vectors = [replicate 100 1, replicate 100 2, replicate 100 3]\<rparr>"

definition ex_initial :: "unit initial" where
  "ex_initial =
     \<lparr>embedding_initial = (\<lambda>i j. 1), lstm_initial = (\<lambda>i h. ()),
      linear_weight_initial = (\<lambda>i j. 0), linear_bias_initial = (\<lambda>i. 1 / 2)\<rparr>"

definition ex_nn :: "(unit, real list list list \<times> int list) nn" where
  "ex_nn =
     \<lparr>pack_impl = (\<lambda>input lengths. Inr (input, lengths)),
      nn_lstm = (\<lambda>w packed.
        Inr (packed,
             [map (\<lambda>n. replicate 256 (of_int n)) (snd packed)],
             [map (\<lambda>n. replicate 256 0) (snd packed)]))\<rparr>"

definition ex_params :: "unit lstm_params" where
  "ex_params =
     \<lparr>embedding_weight = [replicate 100 0, replicate 100 0, replicate 100 3],
      rnn_weights = (),
      fc_weight = [replicate 256 0],
      fc_bias = [1 / 2]\<rparr>"




text \<open>An optimizer whose step leaves the parameters where they are.\<close>

definition ex_frozen_optimizer :: "(real, nat) optimizer" where
  "ex_frozen_optimizer =
     \<lparr>opt_init = (\<lambda>p. Inr 0), opt_zero_grad = (\<lambda>g. None),
      opt_step = (\<lambda>s p g. Inr (Suc s, p))\<rparr>"

text \<open>A model whose output depends on the mode, as one with dropout does: in evaluation
  mode every logit is 2.\<close>

definition ex_mode_model :: "real module" where
  "ex_mode_model = \<lparr>forward = (\<lambda>p mode text_sequence text_lengths.
       if text_lengths = [] then Inl ValueError
       else Inr (Tensor [Tensor (map (\<lambda>l. Tensor [Scalar (if mode then p * of_int l else 2)])
                                  text_lengths)]))\<rparr>"


section \<open>The call order of the loops and the driver\<close>

text \<open>Rules for \<open>follows\<close>: one per way of building a computation, then one per
  framework call, per loop body, per loop and per function.\<close>

text \<open>The definitions of the computation layer, for unfolding.\<close>

lemmas comp_defs = bindM_def ret_def emit_def raise_def lift_def modify_def gets_def print_line_def
  with_grad_enabled_def model_train_def model_eval_def optimizer_zero_grad_def model_call_def
  var_squeeze_def loss_call_def loss_backward_def optimizer_step_def new_optimizer_def

lemma follows_ret: "follows (ret x) [] w"
  by (simp add: follows_def ret_def)

lemma follows_emit: "follows (emit ev) [ev] w"
  by (simp add: follows_def emit_def)

lemma follows_raise: "follows (raise e) evs w"
  by (auto simp: follows_def raise_def intro: exI[of _ "[]"])

lemma follows_lift: "follows (lift r) [] w"
  by (cases r) (simp_all add: lift_def follows_raise follows_ret)

lemma follows_modify: "trace (f w) = trace w \<Longrightarrow> follows (modify f) [] w"
  by (simp add: follows_def modify_def)

lemma follows_bind:
  assumes "follows m e1 w"
    and "\<And>x w'. m w = (Inr x, w') \<Longrightarrow> follows (f x) e2 w'"
  shows "follows (bindM m f) (e1 @ e2) w"
proof (cases "m w")
  case (Pair r w')
  show ?thesis
  proof (cases r)
    case (Inl e)
    with Pair assms(1) obtain pre where "prefix pre e1" "trace w' = trace w @ pre @ [Raise e]"
      by (auto simp: follows_def)
    then show ?thesis using Pair Inl
      by (auto simp: follows_def bindM_def intro!: exI[of _ pre])
  next
    case (Inr x)
    with Pair assms(1) have t: "trace w' = trace w @ e1" by (simp add: follows_def)
    from assms(2) Pair Inr have f: "follows (f x) e2 w'" by simp
    show ?thesis
    proof (cases "f x w'")
      case (Pair r2 w2)
      then show ?thesis using f t \<open>m w = (r, w')\<close> Inr
        apply (cases r2)
         apply (auto simp: follows_def bindM_def)
        done
    qed
  qed
qed

lemma follows_bind_cons:
  assumes "follows m [a] w"
    and "\<And>x w'. m w = (Inr x, w') \<Longrightarrow> follows (f x) evs w'"
  shows "follows (bindM m f) (a # evs) w"
  using follows_bind[OF assms] by simp

lemma follows_bind_nil:
  assumes "follows m [] w"
    and "\<And>x w'. m w = (Inr x, w') \<Longrightarrow> follows (f x) evs w'"
  shows "follows (bindM m f) evs w"
  using follows_bind[OF assms] by simp

lemma follows_with:
  "follows body evs (w\<lparr>grad_enabled := v\<rparr>) \<Longrightarrow> follows (with_grad_enabled v body) evs w"
  by (auto simp: follows_def with_grad_enabled_def split: prod.splits sum.splits)

lemma follows_model_train: "follows model_train [ModeTrain] w"
  unfolding model_train_def
  by (rule follows_bind_cons[OF follows_emit]) (simp add: follows_modify)

lemma follows_model_eval: "follows model_eval [ModeEval] w"
  unfolding model_eval_def
  by (rule follows_bind_cons[OF follows_emit]) (simp add: follows_modify)

lemma follows_zero_grad: "follows (optimizer_zero_grad opt) [ZeroGrad] w"
  unfolding optimizer_zero_grad_def
  by (rule follows_bind_cons[OF follows_emit]) (simp add: follows_modify)

lemma gets_eq [simp]: "gets f w = (r, w') \<longleftrightarrow> r = Inr (f w) \<and> w' = w"
  by (auto simp: gets_def)

lemma follows_bind_gets: "follows (f (g w)) evs w \<Longrightarrow> follows (bindM (gets g) f) evs w"
  by (simp add: follows_def bindM_def gets_def)

lemma follows_model_call:
  "follows (model_call m text text_lengths) [Forward (grad_enabled w) (text, text_lengths)] w"
  unfolding model_call_def
  apply (rule follows_bind_gets)+
  apply (rule follows_bind_cons[OF follows_emit])
  apply (rule follows_bind_nil[OF follows_lift])
  apply (rule follows_ret)
  done

lemma follows_loss_call: "follows (loss_call lf outputs target) [ComputeLoss target] w"
  unfolding loss_call_def
  apply (rule follows_bind_gets)
  apply (rule follows_bind_cons[OF follows_emit])
  apply (rule follows_bind_nil[OF follows_lift])
  apply (rule follows_ret)
  done

lemma follows_loss_backward: "follows (loss_backward T loss) [Backward] w"
  unfolding loss_backward_def
  apply (rule follows_bind_cons[OF follows_emit])
  apply (cases "grad_fn loss")
   apply (simp add: follows_raise)
  apply simp
  apply (rule follows_bind_gets)
  apply (rule follows_bind_nil[OF follows_lift])
  apply (simp add: follows_modify)
  done

lemma follows_optimizer_step: "follows (optimizer_step opt) [Step] w"
  unfolding optimizer_step_def
  apply (rule follows_bind_cons[OF follows_emit])
  apply (rule follows_bind_gets)+
  apply (rule follows_bind_nil[OF follows_lift])
  apply (simp add: follows_modify split: prod.splits)
  done

lemma follows_statistics:
  fixes w :: "('p, 's) world" and loss outputs :: "'p var"
  shows "follows (bindM (emit Stats) (\<lambda>_.
      bindM (lift (item (var_data loss))) (\<lambda>loss_item.
      bindM (ret (cl + loss_item * of_nat (length lens))) (\<lambda>current_loss.
      bindM (lift (torch_eq T
                    (tensor_map round_half_even
                      (tensor_map round_half_even
                        (tensor_map (torch_sigmoid T) (var_data outputs))))
                    (batch_label b))) (\<lambda>matches.
      bindM (lift (py_add_tensor ca (torch_sum matches))) (\<lambda>current_acc.
      ret (current_loss, current_acc))))))) [Stats] w"
  apply (rule follows_bind_cons[OF follows_emit])
  apply (rule follows_bind_nil[OF follows_lift])
  apply (rule follows_bind_nil[OF follows_ret])
  apply (rule follows_bind_nil[OF follows_lift])
  apply (rule follows_bind_nil[OF follows_lift])
  apply (rule follows_ret)
  done

lemma follows_train_block:
  "follows (with_grad_enabled True
              (bindM (model_call model tx lens) (\<lambda>y.
               bindM (ret (var_squeeze y)) (\<lambda>outputs.
               bindM (loss_call lf outputs target) (\<lambda>loss.
               bindM (loss_backward T loss) (\<lambda>_.
               bindM (optimizer_step opt) (\<lambda>_.
               ret (outputs, loss))))))))
     [Forward True (tx, lens), ComputeLoss target, Backward, Step] w"
  apply (rule follows_with)
  apply (rule follows_bind_cons)
   apply (rule follows_model_call[where w="w\<lparr>grad_enabled := True\<rparr>", simplified])
  apply (rule follows_bind_nil[OF follows_ret])
  apply (rule follows_bind_cons[OF follows_loss_call])
  apply (rule follows_bind_cons[OF follows_loss_backward])
  apply (rule follows_bind_cons[OF follows_optimizer_step])
  apply (rule follows_ret)
  done

lemma follows_test_block:
  "follows (with_grad_enabled False
              (bindM (model_call model tx lens) (\<lambda>y.
               bindM (ret (var_squeeze y)) (\<lambda>outputs.
               bindM (loss_call lf outputs target) (\<lambda>loss.
               ret (outputs, loss))))))
     [Forward False (tx, lens), ComputeLoss target] w"
  apply (rule follows_with)
  apply (rule follows_bind_cons)
   apply (rule follows_model_call[where w="w\<lparr>grad_enabled := False\<rparr>", simplified])
  apply (rule follows_bind_nil[OF follows_ret])
  apply (rule follows_bind_cons[OF follows_loss_call])
  apply (rule follows_ret)
  done

lemma follows_train_batch:
  "follows (train_batch model lf opt T b acc) (train_events b) w"
proof -
  obtain cl ca where acc: "acc = (cl, ca)" by (cases acc)
  obtain tx lens where bt: "batch_text b = (tx, lens)" by (cases "batch_text b")
  show ?thesis
    unfolding train_batch_def train_events_def acc bt
    apply simp
    apply (rule follows_bind_cons[OF follows_zero_grad])
    apply (rule follows_bind[where ?e1.0 = "[Forward True (tx, lens), ComputeLoss (batch_label b),
             Backward, Step]" and ?e2.0 = "[Stats]", simplified])
     apply (rule follows_train_block)
    apply (simp split: prod.splits)
    apply (intro allI impI follows_statistics)
    done
qed

lemma follows_test_batch:
  "follows (test_batch model lf T b acc) (test_events b) w"
proof -
  obtain cl ca where acc: "acc = (cl, ca)" by (cases acc)
  obtain tx lens where bt: "batch_text b = (tx, lens)" by (cases "batch_text b")
  show ?thesis
    unfolding test_batch_def test_events_def acc bt
    apply simp
    apply (rule follows_bind[where ?e1.0 = "[Forward False (tx, lens), ComputeLoss (batch_label b)]"
             and ?e2.0 = "[Stats]", simplified])
     apply (rule follows_test_block)
    apply (simp split: prod.splits)
    apply (intro allI impI follows_statistics)
    done
qed

lemma follows_train_loop:
  "follows (train_loop model lf opt T bs acc) (concat (map train_events bs)) w"
proof (induction bs arbitrary: acc w)
  case Nil
  show ?case by (simp add: follows_ret)
next
  case (Cons b bs)
  show ?case
    by (simp, rule follows_bind[OF follows_train_batch], rule Cons.IH)
qed

lemma follows_test_loop:
  "follows (test_loop model lf T bs acc) (concat (map test_events bs)) w"
proof (induction bs arbitrary: acc w)
  case Nil
  show ?case by (simp add: follows_ret)
next
  case (Cons b bs)
  show ?case
    by (simp, rule follows_bind[OF follows_test_batch], rule Cons.IH)
qed

lemma follows_print_line: "follows (print_line l) [] w"
  by (simp add: print_line_def follows_modify)

lemma follows_train_model:
  "follows (train_model model lf opt T dl) (train_model_events dl) w"
  unfolding train_model_def train_model_events_def
  apply simp
  apply (rule follows_bind_cons[OF follows_emit])
  apply (rule follows_bind_cons[OF follows_model_train])
  apply (rule follows_bind[where ?e2.0 = "[]", simplified, OF follows_train_loop])
  apply (simp split: prod.splits)
  apply (intro allI impI)
  apply (rule follows_bind_nil[OF follows_lift])
  apply (rule follows_bind_nil[OF follows_lift])
  apply (rule follows_bind_nil[OF follows_ret])
  apply (rule follows_bind_nil[OF follows_print_line])
  apply (rule follows_ret)
  done

lemma follows_test_model:
  "follows (test_model model lf T dl) (test_model_events dl) w"
  unfolding test_model_def test_model_events_def
  apply simp
  apply (rule follows_bind_cons[OF follows_emit])
  apply (rule follows_bind_cons[OF follows_model_eval])
  apply (rule follows_bind[where ?e2.0 = "[]", simplified, OF follows_test_loop])
  apply (simp split: prod.splits)
  apply (intro allI impI)
  apply (rule follows_bind_nil[OF follows_lift])
  apply (rule follows_bind_nil[OF follows_lift])
  apply (rule follows_bind_nil[OF follows_ret])
  apply (rule follows_bind_nil[OF follows_print_line])
  apply (rule follows_ret)
  done

lemma follows_epoch_body:
  "follows (epoch_body model lf opt T tr te epoch) (epoch_events tr te) w"
  unfolding epoch_body_def epoch_events_def
  apply (rule follows_bind_nil[OF follows_print_line])
  apply (rule follows_bind[OF follows_train_model])
  apply (rule follows_bind[where ?e2.0 = "[]", simplified, OF follows_test_model])
  apply (rule follows_ret)
  done

lemma follows_epoch_loop:
  "follows (epoch_loop model lf opt T tr te es)
     (concat (replicate (length es) (epoch_events tr te))) w"
proof (induction es arbitrary: w)
  case Nil
  show ?case by (simp add: follows_ret)
next
  case (Cons e es)
  show ?case
    by (simp, rule follows_bind[OF follows_epoch_body], rule Cons.IH)
qed

lemma follows_new_optimizer: "follows (new_optimizer adam) [NewOptimizer] w"
  unfolding new_optimizer_def
  apply (rule follows_bind_cons[OF follows_emit])
  apply (rule follows_bind_gets)
  apply (rule follows_bind_nil[OF follows_lift])
  apply (simp add: follows_modify)
  done

lemma follows_driver:
  "follows (driver model adam bce T tr te) (driver_events tr te) w"
  unfolding driver_def driver_events_def
  apply simp
  apply (rule follows_bind_cons[OF follows_new_optimizer])
  apply (rule follows_bind_cons[OF follows_emit])
  apply (rule follows_bind_cons[OF follows_emit])
  apply (rule follows_epoch_loop[where es = "[0..<5]", simplified])
  done

section \<open>What the evaluation loop leaves unchanged\<close>

lemma frameI:
  assumes "\<And>w r w'. m w = (r, w') \<Longrightarrow>
             params w' = params w \<and> grads w' = grads w \<and> opt_state w' = opt_state w"
  shows "frame m"
  unfolding frame_def
proof
  fix w
  show "params (snd (m w)) = params w \<and> grads (snd (m w)) = grads w
          \<and> opt_state (snd (m w)) = opt_state w"
    using assms[of w "fst (m w)" "snd (m w)"] by simp
qed

lemma frameD:
  assumes "frame m" and "m w = (r, w')"
  shows "params w' = params w \<and> grads w' = grads w \<and> opt_state w' = opt_state w"
  using assms(1)[unfolded frame_def, rule_format, of w] assms(2) by simp

lemma frame_ret: "frame (ret x)" by (simp add: frame_def ret_def)
lemma frame_emit: "frame (emit ev)" by (simp add: frame_def emit_def)
lemma frame_raise: "frame (raise e)" by (simp add: frame_def raise_def)
lemma frame_lift: "frame (lift r)" by (cases r) (simp_all add: lift_def frame_raise frame_ret)
lemma frame_gets: "frame (gets f)" by (simp add: frame_def gets_def)
lemma frame_print_line: "frame (print_line l)" by (simp add: frame_def print_line_def modify_def)

lemma frame_bind:
  assumes "frame m" and "\<And>x. frame (f x)"
  shows "frame (bindM m f)"
proof (rule frameI)
  fix w r w'
  assume run: "bindM m f w = (r, w')"
  obtain r1 w1 where m: "m w = (r1, w1)" by (cases "m w")
  note d1 = frameD[OF assms(1) m]
  show "params w' = params w \<and> grads w' = grads w \<and> opt_state w' = opt_state w"
  proof (cases r1)
    case (Inl e)
    with run m have "w' = w1" by (simp add: bindM_def)
    with d1 show ?thesis by simp
  next
    case (Inr x)
    with run m have "f x w1 = (r, w')" by (simp add: bindM_def)
    from frameD[OF assms(2) this] d1 show ?thesis by simp
  qed
qed

lemma frame_with:
  assumes "frame body"
  shows "frame (with_grad_enabled v body)"
proof (rule frameI)
  fix w r w'
  assume run: "with_grad_enabled v body w = (r, w')"
  obtain r1 w1 where b: "body (w\<lparr>grad_enabled := v\<rparr>) = (r1, w1)"
    by (cases "body (w\<lparr>grad_enabled := v\<rparr>)")
  from run b have "w' = w1\<lparr>grad_enabled := grad_enabled w\<rparr>"
    by (simp add: with_grad_enabled_def)
  with frameD[OF assms b]
  show "params w' = params w \<and> grads w' = grads w \<and> opt_state w' = opt_state w" by simp
qed

lemma frame_model_eval: "frame model_eval"
  unfolding model_eval_def
  by (intro frame_bind frame_emit) (simp add: frame_def modify_def)

lemma frame_model_call: "frame (model_call m tx lens)"
  unfolding model_call_def
  by (intro frame_bind frame_gets frame_emit frame_lift frame_ret)

lemma frame_loss_call: "frame (loss_call lf outputs target)"
  unfolding loss_call_def
  by (intro frame_bind frame_gets frame_emit frame_lift frame_ret)

lemma frame_test_batch: "frame (test_batch model lf T b acc)"
  unfolding test_batch_def
  apply (cases acc; cases "batch_text b"; simp)
  apply (intro frame_bind frame_with frame_model_call frame_loss_call frame_ret
      frame_emit frame_lift)
  apply (simp split: prod.splits)
  apply (intro allI impI frame_bind frame_emit frame_lift frame_ret)
  done

lemma frame_test_loop: "frame (test_loop model lf T bs acc)"
  by (induction bs arbitrary: acc) (auto intro!: frame_bind frame_ret frame_test_batch)

lemma frame_test_model: "frame (test_model model lf T dl)"
  unfolding test_model_def
  apply (intro frame_bind frame_emit frame_model_eval frame_test_loop)
  apply (simp split: prod.splits)
  apply (intro allI impI frame_bind frame_lift frame_ret frame_print_line)
  done

lemma prefix_set_mono: "prefix xs ys \<Longrightarrow> set xs \<subseteq> set ys"
  by (auto simp: prefix_def)

section \<open>Exceptions and top-level calls in the scripts\<close>









lemma filter_top_level_train_model_events:
  "filter top_level (train_model_events dl) = [CallTrain dl]"
  by (simp add: train_model_events_def train_events_def filter_concat comp_def)

lemma filter_top_level_test_model_events:
  "filter top_level (test_model_events dl) = [CallTest dl]"
  by (simp add: test_model_events_def test_events_def filter_concat comp_def)

lemma filter_top_level_driver_events:
  "filter top_level (driver_events tr te) =
     [NewOptimizer, NewLoss] @ concat (replicate 5 [CallTrain tr, CallTest te])"
  by (simp add: driver_events_def epoch_events_def filter_concat
      filter_top_level_train_model_events filter_top_level_test_model_events)



section \<open>Normal returns and printed output\<close>

lemma bindM_Inr:
  "bindM m f w = (Inr y, w') \<longleftrightarrow> (\<exists>x w1. m w = (Inr x, w1) \<and> f x w1 = (Inr y, w'))"
  by (cases "m w"; cases "fst (m w)") (auto simp: bindM_def)

lemma ret_Inr: "ret x w = (Inr y, w') \<longleftrightarrow> y = x \<and> w' = w"
  by (auto simp: ret_def)

lemma lift_Inr: "lift r w = (Inr y, w') \<longleftrightarrow> r = Inr y \<and> w' = w"
  by (cases r) (auto simp: lift_def ret_def raise_def)

lemma emit_Inr: "emit ev w = (Inr u, w') \<longleftrightarrow> w' = w\<lparr>trace := trace w @ [ev]\<rparr>"
  by (auto simp: emit_def)

lemma print_line_Inr: "print_line l w = (Inr u, w') \<longleftrightarrow> w' = w\<lparr>stdout := stdout w @ [l]\<rparr>"
  by (auto simp: print_line_def modify_def)

lemma model_train_Inr:
  "model_train w = (Inr u, w') \<longleftrightarrow> w' = w\<lparr>trace := trace w @ [ModeTrain], training := True\<rparr>"
  by (auto simp: model_train_def bindM_def emit_def modify_def)

lemma model_eval_Inr:
  "model_eval w = (Inr u, w') \<longleftrightarrow> w' = w\<lparr>trace := trace w @ [ModeEval], training := False\<rparr>"
  by (auto simp: model_eval_def bindM_def emit_def modify_def)

lemma silentI:
  assumes "\<And>w r w'. m w = (r, w') \<Longrightarrow> stdout w' = stdout w"
  shows "silent m"
  unfolding silent_def using assms[OF prod.collapse[symmetric]] by simp

lemma silentD: "silent m \<Longrightarrow> m w = (r, w') \<Longrightarrow> stdout w' = stdout w"
  unfolding silent_def by (metis snd_conv)

lemma silent_ret: "silent (ret x)" by (simp add: silent_def ret_def)
lemma silent_emit: "silent (emit ev)" by (simp add: silent_def emit_def)
lemma silent_raise: "silent (raise e)" by (simp add: silent_def raise_def)
lemma silent_lift: "silent (lift r)" by (cases r) (simp_all add: lift_def silent_raise silent_ret)
lemma silent_gets: "silent (gets f)" by (simp add: silent_def gets_def)

lemma silent_bind:
  assumes "silent m" and "\<And>x. silent (f x)"
  shows "silent (bindM m f)"
proof (rule silentI)
  fix w r w'
  assume run: "bindM m f w = (r, w')"
  obtain r1 w1 where m: "m w = (r1, w1)" by (cases "m w")
  note d1 = silentD[OF assms(1) m]
  show "stdout w' = stdout w"
  proof (cases r1)
    case (Inl e)
    with run m have "w' = w1" by (simp add: bindM_def)
    with d1 show ?thesis by simp
  next
    case (Inr x)
    with run m have "f x w1 = (r, w')" by (simp add: bindM_def)
    from silentD[OF assms(2) this] d1 show ?thesis by simp
  qed
qed

lemma silent_with:
  assumes "silent body"
  shows "silent (with_grad_enabled v body)"
proof (rule silentI)
  fix w r w'
  assume run: "with_grad_enabled v body w = (r, w')"
  obtain r1 w1 where b: "body (w\<lparr>grad_enabled := v\<rparr>) = (r1, w1)"
    by (cases "body (w\<lparr>grad_enabled := v\<rparr>)")
  from run b have "w' = w1\<lparr>grad_enabled := grad_enabled w\<rparr>"
    by (simp add: with_grad_enabled_def)
  with silentD[OF assms b] show "stdout w' = stdout w" by simp
qed

lemma silent_modify: "(\<And>w. stdout (f w) = stdout w) \<Longrightarrow> silent (modify f)"
  by (simp add: silent_def modify_def)

lemma silent_model_train: "silent model_train"
  unfolding model_train_def by (intro silent_bind silent_emit silent_modify) simp

lemma silent_model_eval: "silent model_eval"
  unfolding model_eval_def by (intro silent_bind silent_emit silent_modify) simp

lemma silent_zero_grad: "silent (optimizer_zero_grad opt)"
  unfolding optimizer_zero_grad_def by (intro silent_bind silent_emit silent_modify) simp

lemma silent_model_call: "silent (model_call m tx lens)"
  unfolding model_call_def
  by (intro silent_bind silent_gets silent_emit silent_lift silent_ret)

lemma silent_loss_call: "silent (loss_call lf outputs target)"
  unfolding loss_call_def
  by (intro silent_bind silent_gets silent_emit silent_lift silent_ret)

lemma silent_loss_backward: "silent (loss_backward T loss)"
  unfolding loss_backward_def
  apply (intro silent_bind silent_emit)
  apply (cases "grad_fn loss")
   apply (simp add: silent_raise)
  apply simp
  apply (intro silent_bind silent_gets silent_lift silent_modify)
  apply simp
  done

lemma silent_optimizer_step: "silent (optimizer_step opt)"
  unfolding optimizer_step_def
  apply (intro silent_bind silent_emit silent_gets silent_lift)
  apply (simp split: prod.splits)
  apply (intro allI impI silent_modify)
  apply simp
  done

lemma silent_train_batch: "silent (train_batch model lf opt T b acc)"
  unfolding train_batch_def
  apply (cases acc; cases "batch_text b"; simp)
  apply (intro silent_bind silent_with silent_zero_grad silent_model_call silent_loss_call
      silent_loss_backward silent_optimizer_step silent_ret silent_emit silent_lift)
  apply (simp split: prod.splits)
  apply (intro allI impI silent_bind silent_emit silent_lift silent_ret)
  done

lemma silent_test_batch: "silent (test_batch model lf T b acc)"
  unfolding test_batch_def
  apply (cases acc; cases "batch_text b"; simp)
  apply (intro silent_bind silent_with silent_model_call silent_loss_call
      silent_ret silent_emit silent_lift)
  apply (simp split: prod.splits)
  apply (intro allI impI silent_bind silent_emit silent_lift silent_ret)
  done

lemma silent_train_loop: "silent (train_loop model lf opt T bs acc)"
  by (induction bs arbitrary: acc) (auto intro!: silent_bind silent_ret silent_train_batch)

lemma silent_test_loop: "silent (test_loop model lf T bs acc)"
  by (induction bs arbitrary: acc) (auto intro!: silent_bind silent_ret silent_test_batch)

lemma train_model_Inr:
  "train_model model lf opt T dl w = (Inr v, w') \<Longrightarrow>
     (\<exists>loss_sum acc_sum wb total_loss d.
        train_loop model lf opt T (batches dl) (0, PyInt 0) (enter_train dl w)
          = (Inr (loss_sum, acc_sum), wb)
      \<and> py_truediv loss_sum (dataset_len dl) = Inr total_loss
      \<and> double acc_sum = Inr d
      \<and> v = PyNone
      \<and> w' = wb\<lparr>stdout := stdout wb @
                 [MetricsLine ''Train'' (PyFloat total_loss)
                    (PyTensor (tensor_div d (dataset_len dl)))]\<rparr>)"
  unfolding train_model_def enter_train_def
  by (auto simp: bindM_Inr ret_Inr lift_Inr emit_Inr print_line_Inr model_train_Inr
      split: prod.splits)

lemma test_model_Inr:
  "test_model model lf T dl w = (Inr v, w') \<Longrightarrow>
     (\<exists>loss_sum acc_sum wb total_loss d.
        test_loop model lf T (batches dl) (0, PyInt 0) (enter_test dl w)
          = (Inr (loss_sum, acc_sum), wb)
      \<and> py_truediv loss_sum (dataset_len dl) = Inr total_loss
      \<and> double acc_sum = Inr d
      \<and> v = PyTuple [PyFloat total_loss, PyTensor (tensor_div d (dataset_len dl))]
      \<and> w' = wb\<lparr>stdout := stdout wb @
                 [MetricsLine ''Test'' (PyFloat total_loss)
                    (PyTensor (tensor_div d (dataset_len dl)))]\<rparr>)"
  unfolding test_model_def enter_test_def
  by (auto simp: bindM_Inr ret_Inr lift_Inr emit_Inr print_line_Inr model_eval_Inr
      split: prod.splits)

section \<open>The model: shapes and initial weights\<close>

lemma bindE_Inr[simp]: "bindE (Inr x) f = f x"
  by (simp add: bindE_def)

lemma bindE_Inl[simp]: "bindE (Inl e) f = Inl e"
  by (simp add: bindE_def)

lemma bindE_eq_Inr: "bindE r f = Inr y \<longleftrightarrow> (\<exists>x. r = Inr x \<and> f x = Inr y)"
  by (cases r) auto

lemma traverse_all_Inr:
  "(\<And>x. x \<in> set xs \<Longrightarrow> f x = Inr (g x)) \<Longrightarrow> traverse f xs = Inr (map g xs)"
  by (induction xs) auto

lemma traverse_Inr_all2:
  "traverse f xs = Inr ys \<Longrightarrow> list_all2 (\<lambda>x y. f x = Inr y) xs ys"
  by (induction xs arbitrary: ys) (auto simp: bindE_eq_Inr)

lemma length_matrix_of: "length (matrix_of r c f) = r"
  by (simp add: matrix_of_def)

lemma nth_matrix_of: "i < r \<Longrightarrow> length (matrix_of r c f ! i) = c"
  by (simp add: matrix_of_def)

lemma tensor_copy_same_shape:
  assumes "length src = length dst"
    and "\<And>i. i < length dst \<Longrightarrow> length (src ! i) = length (dst ! i)"
  shows "tensor_copy dst src = Inr src"
proof -
  have "traverse (\<lambda>(d, s). broadcast_row s (length d)) (zip dst src) = Inr (map snd (zip dst src))"
  proof (rule traverse_all_Inr)
    fix x assume "x \<in> set (zip dst src)"
    then obtain i where "i < length dst" "x = (dst ! i, src ! i)"
      using assms(1) by (auto simp: set_zip)
    with assms(2) show "(case x of (d, s) \<Rightarrow> broadcast_row s (length d)) = Inr (snd x)"
      by (simp add: broadcast_row_def)
  qed
  with assms(1) show ?thesis by (simp add: tensor_copy_def)
qed

lemma set_row_same_width:
  "i < length M \<Longrightarrow> length row = length (M ! i) \<Longrightarrow> set_row M i row = Inr (M[i := row])"
  by (simp add: set_row_def broadcast_row_def)

lemma linear_length: "linear W b x = Inr y \<Longrightarrow> length y = min (length W) (length b)"
  by (auto simp: linear_def split: if_splits)

lemma make_model_fc:
  assumes "make_model rng v = Inr p"
  shows "length (fc_weight p) = 1 \<and> length (fc_bias p) = 1"
  using assms
  by (auto simp: make_model_def LSTMModel_init_def bindE_eq_Inr length_matrix_of)

lemma nn_linear_single:
  assumes "length W = 1" and "length b = 1" and "nn_linear W b hidden = Inr y"
  shows "single_logits y"
proof -
  from assms(3) obtain ys where tr: "traverse (traverse (linear W b)) hidden = Inr ys"
    and y: "y = tensor3 ys"
    by (auto simp: nn_linear_def bindE_eq_Inr)
  have one: "length out = 1" if "l \<in> set ys" "out \<in> set l" for l out
  proof -
    from traverse_Inr_all2[OF tr] that(1) obtain h where "traverse (linear W b) h = Inr l"
      by (auto simp: list_all2_conv_all_nth in_set_conv_nth)
    from traverse_Inr_all2[OF this] that(2) obtain x where "linear W b x = Inr out"
      by (auto simp: list_all2_conv_all_nth in_set_conv_nth)
    from linear_length[OF this] assms(1,2) show ?thesis by simp
  qed
  have "map (\<lambda>v. Tensor (map Scalar v)) l = map (\<lambda>x. Tensor [Scalar x]) (map hd l)"
    if "l \<in> set ys" for l
  proof -
    have "Tensor (map Scalar out) = Tensor [Scalar (hd out)]" if "out \<in> set l" for out
      using one[OF \<open>l \<in> set ys\<close> that] by (cases out) auto
    then show ?thesis by simp
  qed
  then have "tensor3 ys = Tensor (map (\<lambda>l. Tensor (map (\<lambda>x. Tensor [Scalar x]) l)) (map (map hd) ys))"
    by (simp add: tensor3_def)
  with y show ?thesis unfolding single_logits_def by blast
qed

section \<open>The iterators: batches in decreasing order of length\<close>















section \<open>The metrics of both loops\<close>

lemma train_batch_training:
  "training (snd (train_batch model lf opt T b acc w)) = training w"
  by (cases acc; cases "batch_text b")
     (simp add: train_batch_def comp_defs split: sum.splits prod.splits option.splits)

lemma test_batch_training:
  "training (snd (test_batch model lf T b acc w)) = training w"
  by (cases acc; cases "batch_text b")
     (simp add: test_batch_def comp_defs split: sum.splits prod.splits option.splits)

lemma test_batch_statistics:
  "fst (test_batch model lf T b acc w) = batch_statistics model lf T (training w) (params w) b acc"
  by (cases acc; cases "batch_text b")
     (simp add: test_batch_def batch_statistics_def bindE_def comp_defs
        split: sum.splits prod.splits option.splits)

lemma train_batch_statistics:
  assumes "train_batch model lf opt T b acc w = (Inr acc', w')"
  shows "batch_statistics model lf T (training w) (params w) b acc = Inr acc'"
  using assms
  by (cases acc; cases "batch_text b")
     (auto simp: train_batch_def batch_statistics_def bindE_def comp_defs
        split: sum.splits prod.splits option.splits)


lemma test_loop_statistics:
  "fst (test_loop model lf T bs acc w) =
     statistics_along model lf T (training w) (map (\<lambda>b. (params w, b)) bs) acc"
proof (induction bs arbitrary: acc w)
  case Nil
  show ?case by (simp add: ret_def)
next
  case (Cons b bs)
  obtain r1 w1 where tb: "test_batch model lf T b acc w = (r1, w1)"
    by (cases "test_batch model lf T b acc w")
  from frameD[OF frame_test_batch tb] have p: "params w1 = params w" by simp
  from test_batch_training[of model lf T b acc w] tb have m: "training w1 = training w" by simp
  from test_batch_statistics[of model lf T b acc w] tb
  have r1: "batch_statistics model lf T (training w) (params w) b acc = r1" by simp
  show ?case
  proof (cases r1)
    case (Inl e)
    with tb r1 show ?thesis by (simp add: bindM_def)
  next
    case (Inr acc1)
    with tb r1 Cons.IH[of acc1 w1] p m show ?thesis by (simp add: bindM_def)
  qed
qed

lemma train_loop_statistics:
  assumes "train_loop model lf opt T bs acc w = (Inr acc', w')"
  shows "statistics_along model lf T (training w)
           (zip (train_trajectory model lf opt T bs acc w) bs) acc = Inr acc'
         \<and> length (train_trajectory model lf opt T bs acc w) = length bs"
  using assms
proof (induction bs arbitrary: acc w)
  case Nil
  then show ?case by (simp add: ret_def)
next
  case (Cons b bs)
  from Cons.prems obtain acc1 w1 where
    tb: "train_batch model lf opt T b acc w = (Inr acc1, w1)"
    and rest: "train_loop model lf opt T bs acc1 w1 = (Inr acc', w')"
    by (auto simp: bindM_Inr)
  from train_batch_training[of model lf opt T b acc w] tb have m: "training w1 = training w"
    by simp
  from Cons.IH[OF rest] m train_batch_statistics[OF tb] tb
  show ?case by simp
qed

lemma epoch_totals_Inr:
  "py_truediv loss_sum n = Inr l \<Longrightarrow> double acc_sum = Inr d \<Longrightarrow>
     epoch_totals (loss_sum, acc_sum) n = Inr (l, tensor_div d n)"
  by (simp add: epoch_totals_def)

lemma test_model_result:
  "fst (test_model model lf T dl w) =
     bindE (epoch_metrics model lf T False (map (\<lambda>b. params w) (batches dl)) dl)
       (\<lambda>(total_loss, total_acc). Inr (PyTuple [PyFloat total_loss, PyTensor total_acc]))"
proof -
  have z: "zip (map (\<lambda>b. params w) (batches dl)) (batches dl)
             = map (\<lambda>b. (params w, b)) (batches dl)"
    by (induction "batches dl") (simp_all add: zip_map1 zip_same_conv_map)
  obtain r wb where loop:
    "test_loop model lf T (batches dl) (0, PyInt 0) (enter_test dl w) = (r, wb)"
    by (cases "test_loop model lf T (batches dl) (0, PyInt 0) (enter_test dl w)")
  from test_loop_statistics[of model lf T "batches dl" "(0, PyInt 0)" "enter_test dl w"] loop
  have st: "statistics_along model lf T False (map (\<lambda>b. (params w, b)) (batches dl)) (0, PyInt 0)
              = r"
    by (simp add: enter_test_def)
  have start: "test_model model lf T dl w =
      bindM (test_loop model lf T (batches dl) (0, PyInt 0)) (\<lambda>(current_loss, current_acc).
        bindM (lift (py_truediv current_loss (dataset_len dl))) (\<lambda>total_loss.
        bindM (lift (double current_acc)) (\<lambda>d.
        bindM (ret (tensor_div d (dataset_len dl))) (\<lambda>total_acc.
        bindM (print_line (MetricsLine ''Test'' (PyFloat total_loss) (PyTensor total_acc))) (\<lambda>_.
        ret (PyTuple [PyFloat total_loss, PyTensor total_acc]))))))
      (enter_test dl w)"
    by (simp add: test_model_def enter_test_def bindM_def emit_def model_eval_def modify_def)
  show ?thesis
    unfolding start epoch_metrics_def z st
    using loop
    by (cases r)
       (auto simp: bindM_def bindE_def epoch_totals_def lift_def raise_def ret_def print_line_def
          modify_def split: sum.splits prod.splits)
qed

lemma train_batch_frozen:
  assumes "\<And>s p g s' p'. opt_step opt s p g = Inr (s', p') \<Longrightarrow> p' = p"
    and "train_batch model lf opt T b acc w = (Inr acc', w')"
  shows "params w' = params w"
  using assms(2) assms(1)
  by (cases acc; cases "batch_text b")
     (auto simp: train_batch_def comp_defs split: sum.splits prod.splits option.splits)

lemma train_trajectory_frozen:
  assumes "\<And>s p g s' p'. opt_step opt s p g = Inr (s', p') \<Longrightarrow> p' = p"
    and "train_loop model lf opt T bs acc w = (Inr acc', w')"
  shows "train_trajectory model lf opt T bs acc w = map (\<lambda>b. params w) bs"
  using assms(2)
proof (induction bs arbitrary: acc w)
  case Nil
  show ?case by simp
next
  case (Cons b bs)
  from Cons.prems obtain acc1 w1 where
    tb: "train_batch model lf opt T b acc w = (Inr acc1, w1)"
    and rest: "train_loop model lf opt T bs acc1 w1 = (Inr acc', w')"
    by (auto simp: bindM_Inr)
  from train_batch_frozen[OF assms(1) tb] Cons.IH[OF rest] tb show ?case by simp
qed

lemma batch_statistics_mode:
  assumes "\<And>p x l. forward model p True x l = forward model p False x l"
  shows "batch_statistics model lf T True p b acc = batch_statistics model lf T False p b acc"
  by (simp add: batch_statistics_def assms)

lemma statistics_along_mode:
  assumes "\<And>p x l. forward model p True x l = forward model p False x l"
  shows "statistics_along model lf T True xs acc = statistics_along model lf T False xs acc"
proof (induction xs arbitrary: acc)
  case Nil
  show ?case by simp
next
  case (Cons pb xs)
  obtain p b where "pb = (p, b)" by (cases pb)
  with Cons.IH batch_statistics_mode[OF assms] show ?case
    by (simp add: bindE_def split: sum.splits)
qed

lemma train_model_metrics:
  assumes "train_model model lf opt T dl w = (Inr v, w')"
  shows "\<exists>total_loss total_acc.
           epoch_metrics model lf T True
             (train_trajectory model lf opt T (batches dl) (0, PyInt 0) (enter_train dl w)) dl
             = Inr (total_loss, total_acc)
         \<and> stdout w' = stdout w @ [MetricsLine ''Train'' (PyFloat total_loss) (PyTensor total_acc)]"
proof -
  from train_model_Inr[OF assms] obtain loss_sum acc_sum wb l d where
    loop: "train_loop model lf opt T (batches dl) (0, PyInt 0) (enter_train dl w)
             = (Inr (loss_sum, acc_sum), wb)"
    and l: "py_truediv loss_sum (dataset_len dl) = Inr l"
    and d: "double acc_sum = Inr d"
    and w: "w' = wb\<lparr>stdout := stdout wb @
               [MetricsLine ''Train'' (PyFloat l) (PyTensor (tensor_div d (dataset_len dl)))]\<rparr>"
    by blast
  from train_loop_statistics[OF loop] epoch_totals_Inr[OF l d]
  have "epoch_metrics model lf T True
          (train_trajectory model lf opt T (batches dl) (0, PyInt 0) (enter_train dl w)) dl
          = Inr (l, tensor_div d (dataset_len dl))"
    by (simp add: epoch_metrics_def enter_train_def)
  moreover from silentD[OF silent_train_loop loop] w
  have "stdout w' = stdout w @
          [MetricsLine ''Train'' (PyFloat l) (PyTensor (tensor_div d (dataset_len dl)))]"
    by (simp add: enter_train_def)
  ultimately show ?thesis by blast
qed

lemma train_prints_what_test_returns:
  assumes frozen: "\<And>s p g s' p'. opt_step opt s p g = Inr (s', p') \<Longrightarrow> p' = p"
    and mode: "\<And>p x l. forward model p True x l = forward model p False x l"
    and run: "train_model model lf opt T dl w = (Inr v, w')"
  shows "\<exists>total_loss total_acc.
           fst (test_model model lf T dl w) = Inr (PyTuple [PyFloat total_loss, PyTensor total_acc])
         \<and> stdout w' = stdout w @ [MetricsLine ''Train'' (PyFloat total_loss) (PyTensor total_acc)]"
proof -
  from train_model_Inr[OF run] obtain running wb where
    loop: "train_loop model lf opt T (batches dl) (0, PyInt 0) (enter_train dl w)
             = (Inr running, wb)"
    by blast
  from train_trajectory_frozen[OF frozen loop]
  have traj: "train_trajectory model lf opt T (batches dl) (0, PyInt 0) (enter_train dl w)
                = map (\<lambda>b. params w) (batches dl)"
    by (simp add: enter_train_def)
  from train_model_metrics[OF run] obtain l a where
    m: "epoch_metrics model lf T True (map (\<lambda>b. params w) (batches dl)) dl = Inr (l, a)"
    and out: "stdout w' = stdout w @ [MetricsLine ''Train'' (PyFloat l) (PyTensor a)]"
    unfolding traj by blast
  from m have "epoch_metrics model lf T False (map (\<lambda>b. params w) (batches dl)) dl = Inr (l, a)"
    by (simp add: epoch_metrics_def statistics_along_mode[OF mode])
  then have "fst (test_model model lf T dl w) = Inr (PyTuple [PyFloat l, PyTensor a])"
    by (simp add: test_model_result)
  with out show ?thesis by blast
qed

lemma train_batch_step:
  assumes "train_batch model lf opt T b acc w = (r, w')"
  shows "case train_step model lf opt T (training w) b (acc, params w, grads w, opt_state w) of
           Inl e \<Rightarrow> r = Inl e
         | Inr (acc', p', g', s') \<Rightarrow>
             r = Inr acc' \<and> params w' = p' \<and> grads w' = g' \<and> opt_state w' = s'"
  using assms
  by (cases acc; cases "batch_text b")
     (auto simp: train_batch_def train_step_def batch_statistics_def bindE_def comp_defs
        split: sum.splits prod.splits option.splits)

lemma train_loop_steps:
  assumes "train_loop model lf opt T bs acc w = (r, w')"
  shows "case train_steps model lf opt T (training w) bs (acc, params w, grads w, opt_state w) of
           Inl e \<Rightarrow> r = Inl e
         | Inr (acc', p', g', s') \<Rightarrow>
             r = Inr acc' \<and> params w' = p' \<and> grads w' = g' \<and> opt_state w' = s'"
  using assms
proof (induction bs arbitrary: acc w)
  case Nil
  then show ?case by (auto simp: ret_def)
next
  case (Cons b bs)
  obtain r1 w1 where tb: "train_batch model lf opt T b acc w = (r1, w1)"
    by (cases "train_batch model lf opt T b acc w")
  from train_batch_training[of model lf opt T b acc w] tb have m: "training w1 = training w"
    by simp
  note st = train_batch_step[OF tb]
  show ?case
  proof (cases "train_step model lf opt T (training w) b (acc, params w, grads w, opt_state w)")
    case (Inl e)
    with st have "r1 = Inl e" by simp
    with tb Cons.prems have "r = Inl e" by (simp add: bindM_def)
    with Inl show ?thesis by simp
  next
    case (Inr st1)
    obtain acc1 p1 g1 s1 where st1: "st1 = (acc1, p1, g1, s1)" by (cases st1) auto
    from st Inr st1 have r1: "r1 = Inr acc1" and e: "params w1 = p1" "grads w1 = g1" "opt_state w1 = s1"
      by simp_all
    from tb r1 Cons.prems have rest: "train_loop model lf opt T bs acc1 w1 = (r, w')"
      by (simp add: bindM_def)
    from Cons.IH[OF rest] m e Inr st1 show ?thesis by simp
  qed
qed

lemma train_model_steps:
  assumes "train_model model lf opt T dl w = (r, w')"
  shows "case train_steps model lf opt T True (batches dl)
                ((0, PyInt 0), params w, grads w, opt_state w) of
           Inl e \<Rightarrow> r = Inl e
         | Inr (acc, p', g', s') \<Rightarrow>
             params w' = p' \<and> grads w' = g' \<and> opt_state w' = s'
             \<and> r = bindE (epoch_totals acc (dataset_len dl)) (\<lambda>totals. Inr PyNone)"
proof -
  obtain rl wb where loop:
    "train_loop model lf opt T (batches dl) (0, PyInt 0) (enter_train dl w) = (rl, wb)"
    by (cases "train_loop model lf opt T (batches dl) (0, PyInt 0) (enter_train dl w)")
  have start: "train_model model lf opt T dl w =
      bindM (train_loop model lf opt T (batches dl) (0, PyInt 0)) (\<lambda>(current_loss, current_acc).
        bindM (lift (py_truediv current_loss (dataset_len dl))) (\<lambda>total_loss.
        bindM (lift (double current_acc)) (\<lambda>d.
        bindM (ret (tensor_div d (dataset_len dl))) (\<lambda>total_acc.
        bindM (print_line (MetricsLine ''Train'' (PyFloat total_loss) (PyTensor total_acc))) (\<lambda>_.
        ret PyNone)))))
      (enter_train dl w)"
    by (simp add: train_model_def enter_train_def bindM_def emit_def model_train_def modify_def)
  from train_loop_steps[OF loop]
  have st: "case train_steps model lf opt T True (batches dl)
                ((0, PyInt 0), params w, grads w, opt_state w) of
           Inl e \<Rightarrow> rl = Inl e
         | Inr (acc', p', g', s') \<Rightarrow>
             rl = Inr acc' \<and> params wb = p' \<and> grads wb = g' \<and> opt_state wb = s'"
    by (simp add: enter_train_def)
  from assms[unfolded start] loop st show ?thesis
    by (auto simp: bindM_def bindE_def epoch_totals_def lift_def raise_def ret_def print_line_def
          modify_def split: sum.splits prod.splits)
qed

lemma epoch_loop_run_epochs:
  "epoch_loop model lf opt T tr te es w = run_epochs model lf opt T tr te es w"
proof (induction es arbitrary: w)
  case Nil
  show ?case by (simp add: ret_def)
next
  case (Cons e es)
  show ?case
    by (simp add: epoch_body_def bindM_def print_line_def modify_def ret_def Cons.IH
        split: prod.splits sum.splits)
qed

lemma driver_run_epochs:
  "driver model adam bce T tr te w =
     (case opt_init adam (params w) of
        Inl e \<Rightarrow> (Inl e, w\<lparr>trace := trace w @ [NewOptimizer, Raise e]\<rparr>)
      | Inr s \<Rightarrow>
          run_epochs model bce adam T tr te [0, 1, 2, 3, 4]
            (w\<lparr>opt_state := s, trace := trace w @ [NewOptimizer, NewLoss, ModelToDevice]\<rparr>))"
proof -
  have five: "[0..<5] = [0, 1, 2, 3, 4]" by (simp add: upt_rec)
  show ?thesis
    unfolding driver_def five epoch_loop_run_epochs
    by (cases "opt_init adam (params w)")
       (simp_all add: new_optimizer_def bindM_def emit_def gets_def lift_def raise_def ret_def
          modify_def)
qed

lemma train_model_prints:
  assumes "train_model model lf opt T dl w = (Inr v, w')"
  shows "\<exists>acc st total_loss total_acc.
           train_steps model lf opt T True (batches dl)
             ((0, PyInt 0), params w, grads w, opt_state w) = Inr (acc, st)
         \<and> epoch_totals acc (dataset_len dl) = Inr (total_loss, total_acc)
         \<and> stdout w' = stdout w @ [MetricsLine ''Train'' (PyFloat total_loss) (PyTensor total_acc)]"
proof -
  from train_model_Inr[OF assms] obtain loss_sum acc_sum wb l d where
    loop: "train_loop model lf opt T (batches dl) (0, PyInt 0) (enter_train dl w)
             = (Inr (loss_sum, acc_sum), wb)"
    and l: "py_truediv loss_sum (dataset_len dl) = Inr l"
    and d: "double acc_sum = Inr d"
    and w: "w' = wb\<lparr>stdout := stdout wb @
               [MetricsLine ''Train'' (PyFloat l) (PyTensor (tensor_div d (dataset_len dl)))]\<rparr>"
    by blast
  from train_loop_steps[OF loop]
  have "\<exists>st. train_steps model lf opt T True (batches dl)
             ((0, PyInt 0), params w, grads w, opt_state w) = Inr ((loss_sum, acc_sum), st)"
    by (auto simp: enter_train_def split: sum.splits)
  moreover note epoch_totals_Inr[OF l d]
  moreover from silentD[OF silent_train_loop loop] w
  have "stdout w' = stdout w @
          [MetricsLine ''Train'' (PyFloat l) (PyTensor (tensor_div d (dataset_len dl)))]"
    by (simp add: enter_train_def)
  ultimately show ?thesis by blast
qed

lemma test_model_prints:
  assumes "test_model model lf T dl w = (Inr v, w')"
  shows "\<exists>total_loss total_acc.
           epoch_metrics model lf T False (map (\<lambda>b. params w) (batches dl)) dl
             = Inr (total_loss, total_acc)
         \<and> v = PyTuple [PyFloat total_loss, PyTensor total_acc]
         \<and> stdout w' = stdout w @ [MetricsLine ''Test'' (PyFloat total_loss) (PyTensor total_acc)]"
proof -
  from test_model_Inr[OF assms] obtain acc wb l a where
    loop: "test_loop model lf T (batches dl) (0, PyInt 0) (enter_test dl w) = (Inr acc, wb)"
    and v: "v = PyTuple [PyFloat l, PyTensor a]"
    and w: "w' = wb\<lparr>stdout := stdout wb @ [MetricsLine ''Test'' (PyFloat l) (PyTensor a)]\<rparr>"
    by blast
  from test_model_result[of model lf T dl w] assms v
  have "epoch_metrics model lf T False (map (\<lambda>b. params w) (batches dl)) dl = Inr (l, a)"
    by (auto simp: bindE_def split: sum.splits)
  moreover from silentD[OF silent_test_loop loop] w
  have "stdout w' = stdout w @ [MetricsLine ''Test'' (PyFloat l) (PyTensor a)]"
    by (simp add: enter_test_def)
  ultimately show ?thesis using v by blast
qed

lemma LSTMModel_mode: "forward (LSTMModel N) p True x l = forward (LSTMModel N) p False x l"
  by (simp add: LSTMModel_def)

lemma train_loop_training:
  "training (snd (train_loop model lf opt T bs acc w)) = training w"
proof (induction bs arbitrary: acc w)
  case Nil
  show ?case by (simp add: ret_def)
next
  case (Cons b bs)
  obtain r1 w1 where tb: "train_batch model lf opt T b acc w = (r1, w1)"
    by (cases "train_batch model lf opt T b acc w")
  from train_batch_training[of model lf opt T b acc w] tb have m: "training w1 = training w"
    by simp
  show ?case
  proof (cases r1)
    case (Inl e)
    with tb m show ?thesis by (simp add: bindM_def)
  next
    case (Inr acc1)
    with tb m Cons.IH[of acc1 w1] show ?thesis by (simp add: bindM_def)
  qed
qed

lemma test_loop_training:
  "training (snd (test_loop model lf T bs acc w)) = training w"
proof (induction bs arbitrary: acc w)
  case Nil
  show ?case by (simp add: ret_def)
next
  case (Cons b bs)
  obtain r1 w1 where tb: "test_batch model lf T b acc w = (r1, w1)"
    by (cases "test_batch model lf T b acc w")
  from test_batch_training[of model lf T b acc w] tb have m: "training w1 = training w"
    by simp
  show ?case
  proof (cases r1)
    case (Inl e)
    with tb m show ?thesis by (simp add: bindM_def)
  next
    case (Inr acc1)
    with tb m Cons.IH[of acc1 w1] show ?thesis by (simp add: bindM_def)
  qed
qed

lemma train_model_training: "training (snd (train_model model lf opt T dl w))"
proof -
  obtain rl wb where loop:
    "train_loop model lf opt T (batches dl) (0, PyInt 0) (enter_train dl w) = (rl, wb)"
    by (cases "train_loop model lf opt T (batches dl) (0, PyInt 0) (enter_train dl w)")
  from train_loop_training[of model lf opt T "batches dl" "(0, PyInt 0)" "enter_train dl w"] loop
  have m: "training wb" by (simp add: enter_train_def)
  have start: "train_model model lf opt T dl w =
      bindM (train_loop model lf opt T (batches dl) (0, PyInt 0)) (\<lambda>(current_loss, current_acc).
        bindM (lift (py_truediv current_loss (dataset_len dl))) (\<lambda>total_loss.
        bindM (lift (double current_acc)) (\<lambda>d.
        bindM (ret (tensor_div d (dataset_len dl))) (\<lambda>total_acc.
        bindM (print_line (MetricsLine ''Train'' (PyFloat total_loss) (PyTensor total_acc))) (\<lambda>_.
        ret PyNone)))))
      (enter_train dl w)"
    by (simp add: train_model_def enter_train_def bindM_def emit_def model_train_def modify_def)
  show ?thesis
    unfolding start using loop m
    by (auto simp: bindM_def lift_def raise_def ret_def print_line_def modify_def
          split: sum.splits prod.splits)
qed

lemma test_model_training: "\<not> training (snd (test_model model lf T dl w))"
proof -
  obtain rl wb where loop:
    "test_loop model lf T (batches dl) (0, PyInt 0) (enter_test dl w) = (rl, wb)"
    by (cases "test_loop model lf T (batches dl) (0, PyInt 0) (enter_test dl w)")
  from test_loop_training[of model lf T "batches dl" "(0, PyInt 0)" "enter_test dl w"] loop
  have m: "\<not> training wb" by (simp add: enter_test_def)
  have start: "test_model model lf T dl w =
      bindM (test_loop model lf T (batches dl) (0, PyInt 0)) (\<lambda>(current_loss, current_acc).
        bindM (lift (py_truediv current_loss (dataset_len dl))) (\<lambda>total_loss.
        bindM (lift (double current_acc)) (\<lambda>d.
        bindM (ret (tensor_div d (dataset_len dl))) (\<lambda>total_acc.
        bindM (print_line (MetricsLine ''Test'' (PyFloat total_loss) (PyTensor total_acc))) (\<lambda>_.
        ret (PyTuple [PyFloat total_loss, PyTensor total_acc]))))))
      (enter_test dl w)"
    by (simp add: test_model_def enter_test_def bindM_def emit_def model_eval_def modify_def)
  show ?thesis
    unfolding start using loop m
    by (auto simp: bindM_def lift_def raise_def ret_def print_line_def modify_def
          split: sum.splits prod.splits)
qed

section \<open>Runs of the small instance\<close>

lemmas ex_defs = ex_model_def ex_loss_def ex_optimizer_def ex_torch_def ex_batch_def ex_loader_def

lemma round_half_even_simps:
  "round_half_even 0 = 0" "round_half_even 1 = 1" "round_half_even (1 / 2) = 0"
  by (simp_all add: round_half_even_def Let_def)

lemma ex_train_model_returns:
  "fst (train_model ex_model ex_loss ex_optimizer ex_torch ex_loader w) = Inr PyNone"
  by (simp add: train_model_def train_batch_def comp_defs ex_defs torch_sum_def
      py_truediv_def tensor_div_def)

lemma returns_bind:
  assumes "\<exists>x. fst (m w) = Inr x" and "\<And>x w'. \<exists>y. fst (f x w') = Inr y"
  shows "\<exists>y. fst (bindM m f w) = Inr y"
proof -
  from assms(1) obtain x where "fst (m w) = Inr x" ..
  then have "bindM m f w = f x (snd (m w))" by (cases "m w") (simp add: bindM_def)
  with assms(2)[of x "snd (m w)"] show ?thesis by simp
qed

lemma ex_test_model_returns:
  "\<exists>v. fst (test_model ex_model ex_loss ex_torch ex_loader w) = Inr v"
  by (simp add: test_model_def test_batch_def comp_defs ex_defs torch_sum_def
      py_truediv_def tensor_div_def)

lemma ex_epoch_body_returns:
  "\<exists>u. fst (epoch_body ex_model ex_loss ex_optimizer ex_torch ex_loader ex_loader epoch w) = Inr u"
  unfolding epoch_body_def
  apply (rule returns_bind, simp add: print_line_def modify_def)
  apply (rule returns_bind, simp add: ex_train_model_returns)
  apply (rule returns_bind, rule ex_test_model_returns)
  apply (simp add: ret_def)
  done

lemma ex_epoch_loop_returns:
  "\<exists>u. fst (epoch_loop ex_model ex_loss ex_optimizer ex_torch ex_loader ex_loader es w) = Inr u"
proof (induction es arbitrary: w)
  case Nil
  show ?case by (simp add: ret_def)
next
  case (Cons e es)
  show ?case
    by (subst epoch_loop.simps, rule returns_bind, rule ex_epoch_body_returns, rule Cons.IH)
qed

lemma ex_driver_returns:
  "fst (driver ex_model ex_optimizer ex_loss ex_torch ex_loader ex_loader w) = Inr ()"
proof -
  have "\<exists>u. fst (driver ex_model ex_optimizer ex_loss ex_torch ex_loader ex_loader w) = Inr u"
    unfolding driver_def
    apply (rule returns_bind, simp add: comp_defs ex_defs)
    apply (rule returns_bind, simp add: emit_def)
    apply (rule returns_bind, simp add: emit_def)
    apply (rule ex_epoch_loop_returns)
    done
  then show ?thesis by simp
qed




lemma ex_world_trace: "trace ex_world = []"
  by (simp add: ex_world_def)

lemma eq_fst_snd: "p = (a, snd p) \<longleftrightarrow> fst p = a"
  by (cases p) auto

lemma ex_make_model: "make_model ex_initial ex_vocab = Inr ex_params"
  by (simp add: make_model_def LSTMModel_init_def Embedding_def ex_initial_def ex_vocab_def
      ex_params_def matrix_of_def tensor_copy_def set_row_def broadcast_row_def
      EMBEDDING_SIZE_def HIDDEN_SIZE_def unk_token_def pad_token_def map_replicate_const)

lemma ex_forward:
  "LSTMModel_forward ex_nn ex_params [[2, 0], [1, 1]] [2, 1] =
     Inr (Tensor [Tensor [Tensor [Scalar (1 / 2)], Tensor [Scalar (1 / 2)]]])"
  by (simp add: LSTMModel_forward_def nn_embedding_def pack_padded_sequence_def ex_nn_def
      ex_params_def nn_linear_def linear_def tensor3_def sum_list_replicate)


lemma ex_train_steps:
  "train_steps ex_model ex_loss ex_optimizer ex_torch True (batches ex_loader)
      ((0, PyInt 0), params ex_world, grads ex_world, opt_state ex_world)
     = Inr ((2, PyTensor (Scalar 1)), - 1, Some 1, Suc 0)"
  by (simp add: train_step_def batch_statistics_def ex_defs ex_world_def torch_sum_def
      round_half_even_simps)

lemma ex_epoch_metrics:
  "epoch_metrics ex_model ex_loss ex_torch False (map (\<lambda>b. params ex_world) (batches ex_loader))
     ex_loader = Inr (1, Scalar (1 / 2))"
  by (simp add: epoch_metrics_def epoch_totals_def batch_statistics_def ex_defs ex_world_def
      torch_sum_def round_half_even_simps py_truediv_def tensor_div_def)



section \<open>The claims\<close>

text \<open>
  \<^bold>\<open>C1.\<close>  For every model, loss function and data loader, \<open>test_model\<close> runs the forward
  computation with gradient tracking disabled and leaves every model parameter unchanged:
  the parameters after the call (whether it returns or raises) are those before it.  The
  gradients and the optimizer's state are left alone as well, every forward call it makes
  is made with the tracking switch off, and it makes no backward call and no optimizer
  step.
\<close>

theorem test_model_no_grad_no_update:
  assumes "test_model model lf T dl w = (r, w')"
  shows "params w' = params w \<and> grads w' = grads w \<and> opt_state w' = opt_state w
         \<and> (\<exists>evs. trace w' = trace w @ evs \<and> (\<forall>x. Forward True x \<notin> set evs)
                \<and> (\<forall>ev \<in> set evs. ev \<noteq> Backward \<and> ev \<noteq> Step))"
proof -
  have fr: "params w' = params w \<and> grads w' = grads w \<and> opt_state w' = opt_state w"
    using frameD[OF frame_test_model assms] .
  have ev: "\<forall>x. Forward True x \<notin> set (test_model_events dl)"
     "\<forall>ev \<in> set (test_model_events dl). ev \<noteq> Backward \<and> ev \<noteq> Step"
    by (auto simp: test_model_events_def test_events_def)
  have "\<exists>evs. trace w' = trace w @ evs \<and> (\<forall>x. Forward True x \<notin> set evs)
                \<and> (\<forall>ev \<in> set evs. ev \<noteq> Backward \<and> ev \<noteq> Step)"
  proof (cases r)
    case (Inr v)
    with follows_test_model[of model lf T dl w] assms
    have "trace w' = trace w @ test_model_events dl" by (simp add: follows_def)
    with ev show ?thesis by blast
  next
    case (Inl e)
    with follows_test_model[of model lf T dl w] assms
    obtain pre where p: "prefix pre (test_model_events dl)" "trace w' = trace w @ pre @ [Raise e]"
      by (auto simp: follows_def)
    from p(1) ev have "(\<forall>x. Forward True x \<notin> set (pre @ [Raise e]))
         \<and> (\<forall>ev \<in> set (pre @ [Raise e]). ev \<noteq> Backward \<and> ev \<noteq> Step)"
      using prefix_set_mono[OF p(1)] by auto
    with p(2) show ?thesis by blast
  qed
  with fr show ?thesis by blast
qed

theorem test_model_no_grad_no_update_witness:
  "fst (test_model ex_model ex_loss ex_torch ex_loader ex_world)
     = Inr (PyTuple [PyFloat 1, PyTensor (Scalar (1 / 2))])
   \<and> params (snd (test_model ex_model ex_loss ex_torch ex_loader ex_world)) = 0
   \<and> grads (snd (test_model ex_model ex_loss ex_torch ex_loader ex_world)) = None
   \<and> opt_state (snd (test_model ex_model ex_loss ex_torch ex_loader ex_world)) = 0"
proof -
  have run: "fst (test_model ex_model ex_loss ex_torch ex_loader ex_world)
               = Inr (PyTuple [PyFloat 1, PyTensor (Scalar (1 / 2))])"
    by (simp add: test_model_def test_batch_def comp_defs ex_defs ex_world_def torch_sum_def
        round_half_even_simps py_truediv_def tensor_div_def)
  from test_model_no_grad_no_update[OF prod.collapse[symmetric],
      of ex_model ex_loss ex_torch ex_loader ex_world]
  show ?thesis using run by (simp add: ex_world_def)
qed

text \<open>
  \<^bold>\<open>C2.\<close>  For every batch iterated by \<open>train_model\<close>, the per-batch steps occur in exactly
  this order: reset gradients, forward pass, loss computation, backward pass, optimizer
  step, then the accumulation of the running statistics.  A call that returns has made
  exactly these six calls for every batch of the loader, in the loader's order (after
  entering and switching the model to training mode); a call that raises has made an
  initial part of them.  The effects are chained in the same order: the parameters, the
  gradients and the optimizer's state a call leaves are those of \<open>train_steps\<close>, where in
  every batch the reset gradients are what the backward pass accumulates into, its result
  is what the optimizer steps with, and the statistics are those of the forward pass made
  before the step; the call raises whatever \<open>train_steps\<close> raises first, and otherwise
  returns \<^verbatim>\<open>None\<close> unless the totals cannot be computed.
\<close>

theorem train_model_step_order:
  assumes "train_model model lf opt T dl w = (r, w')"
  shows "(case r of
            Inr v \<Rightarrow>
              trace w' = trace w @ [CallTrain dl, ModeTrain] @
                concat (map (\<lambda>b. [ZeroGrad, Forward True (batch_text b),
                                   ComputeLoss (batch_label b), Backward, Step, Stats])
                            (batches dl))
          | Inl e \<Rightarrow>
              (\<exists>pre. prefix pre ([CallTrain dl, ModeTrain] @
                         concat (map (\<lambda>b. [ZeroGrad, Forward True (batch_text b),
                                            ComputeLoss (batch_label b), Backward, Step, Stats])
                                     (batches dl)))
                     \<and> trace w' = trace w @ pre @ [Raise e]))
         \<and> (case train_steps model lf opt T True (batches dl)
                   ((0, PyInt 0), params w, grads w, opt_state w) of
              Inl e \<Rightarrow> r = Inl e
            | Inr (acc, p', g', s') \<Rightarrow>
                params w' = p' \<and> grads w' = g' \<and> opt_state w' = s'
                \<and> r = bindE (epoch_totals acc (dataset_len dl)) (\<lambda>totals. Inr PyNone))"
proof -
  have ev: "train_model_events dl = [CallTrain dl, ModeTrain] @
               concat (map (\<lambda>b. [ZeroGrad, Forward True (batch_text b),
                                  ComputeLoss (batch_label b), Backward, Step, Stats])
                           (batches dl))"
    unfolding train_model_events_def train_events_def ..
  from follows_train_model[of model lf opt T dl w] assms
  have tr: "case r of
            Inr v \<Rightarrow>
              trace w' = trace w @ [CallTrain dl, ModeTrain] @
                concat (map (\<lambda>b. [ZeroGrad, Forward True (batch_text b),
                                   ComputeLoss (batch_label b), Backward, Step, Stats])
                            (batches dl))
          | Inl e \<Rightarrow>
              (\<exists>pre. prefix pre ([CallTrain dl, ModeTrain] @
                         concat (map (\<lambda>b. [ZeroGrad, Forward True (batch_text b),
                                            ComputeLoss (batch_label b), Backward, Step, Stats])
                                     (batches dl)))
                     \<and> trace w' = trace w @ pre @ [Raise e])"
    unfolding ev by (cases r) (simp_all add: follows_def)
  from tr train_model_steps[OF assms] show ?thesis by (rule conjI)
qed

theorem train_model_step_order_witness:
  "fst (train_model ex_model ex_loss ex_optimizer ex_torch ex_loader ex_world) = Inr PyNone
   \<and> trace (snd (train_model ex_model ex_loss ex_optimizer ex_torch ex_loader ex_world)) =
       [CallTrain ex_loader, ModeTrain, ZeroGrad, Forward True ([[3, 4], [5, 1]], [2, 1]),
        ComputeLoss (Tensor [Scalar 1, Scalar 0]), Backward, Step, Stats]
   \<and> params (snd (train_model ex_model ex_loss ex_optimizer ex_torch ex_loader ex_world)) = - 1
   \<and> grads (snd (train_model ex_model ex_loss ex_optimizer ex_torch ex_loader ex_world)) = Some 1
   \<and> opt_state (snd (train_model ex_model ex_loss ex_optimizer ex_torch ex_loader ex_world)) = 1"
  using train_model_step_order[OF prod.collapse[symmetric],
      where model = ex_model and lf = ex_loss and opt = ex_optimizer and T = ex_torch
        and dl = ex_loader and w = ex_world]
  by (simp add: ex_train_model_returns ex_train_steps ex_world_trace)
     (simp add: ex_loader_def ex_batch_def)

text \<open>
  \<^bold>\<open>C3.\<close>  The top-level driver instantiates exactly one optimizer and one loss function,
  then runs exactly five epochs, and in every epoch calls \<open>train_model\<close> first and
  \<open>test_model\<close> second, on the train and test iterators respectively.  Of the calls in its
  trace, those the driver makes itself are, when it returns, one optimizer construction,
  one loss construction and five times the pair of calls; when an exception ends it,
  an initial part of that list.  Its result and its final state are those of the calls
  themselves: the optimizer's state is built once from the model's parameters (a failure
  there ends the run before any epoch), and from that state the epochs 0 to 4 run
  \<open>train_model\<close> on the train iterator and then \<open>test_model\<close> on the test iterator, each call
  from the state the call before it has left, up to the first exception.
\<close>

theorem driver_five_epochs:
  assumes "driver model adam bce T tr te w = (r, w')"
  shows "(\<exists>evs. trace w' = trace w @ evs
            \<and> prefix (filter top_level evs)
                 ([NewOptimizer, NewLoss] @ concat (replicate 5 [CallTrain tr, CallTest te]))
            \<and> (r = Inr () \<longrightarrow>
                 filter top_level evs =
                   [NewOptimizer, NewLoss] @ concat (replicate 5 [CallTrain tr, CallTest te])))
         \<and> (r, w') =
             (case opt_init adam (params w) of
                Inl e \<Rightarrow> (Inl e, w\<lparr>trace := trace w @ [NewOptimizer, Raise e]\<rparr>)
              | Inr s \<Rightarrow>
                  run_epochs model bce adam T tr te [0, 1, 2, 3, 4]
                    (w\<lparr>opt_state := s,
                       trace := trace w @ [NewOptimizer, NewLoss, ModelToDevice]\<rparr>))"
proof (rule conjI)
  show "\<exists>evs. trace w' = trace w @ evs
            \<and> prefix (filter top_level evs)
                 ([NewOptimizer, NewLoss] @ concat (replicate 5 [CallTrain tr, CallTest te]))
            \<and> (r = Inr () \<longrightarrow>
                 filter top_level evs =
                   [NewOptimizer, NewLoss] @ concat (replicate 5 [CallTrain tr, CallTest te]))"
  proof (cases r)
    case (Inr u)
    with follows_driver[of model adam bce T tr te w] assms
    have "trace w' = trace w @ driver_events tr te" by (simp add: follows_def)
    then show ?thesis
      using filter_top_level_driver_events[of tr te]
      by (intro exI[of _ "driver_events tr te"]) simp
  next
    case (Inl e)
    with follows_driver[of model adam bce T tr te w] assms
    obtain pre where p: "prefix pre (driver_events tr te)" "trace w' = trace w @ pre @ [Raise e]"
      by (auto simp: follows_def)
    from filter_mono_prefix[OF p(1), of top_level]
    have "prefix (filter top_level (pre @ [Raise e]))
            ([NewOptimizer, NewLoss] @ concat (replicate 5 [CallTrain tr, CallTest te]))"
      by (simp add: filter_top_level_driver_events)
    with p(2) Inl show ?thesis by (intro exI[of _ "pre @ [Raise e]"]) simp
  qed
next
  from assms driver_run_epochs[of model adam bce T tr te w]
  show "(r, w') =
             (case opt_init adam (params w) of
                Inl e \<Rightarrow> (Inl e, w\<lparr>trace := trace w @ [NewOptimizer, Raise e]\<rparr>)
              | Inr s \<Rightarrow>
                  run_epochs model bce adam T tr te [0, 1, 2, 3, 4]
                    (w\<lparr>opt_state := s,
                       trace := trace w @ [NewOptimizer, NewLoss, ModelToDevice]\<rparr>))"
    by simp
qed

theorem driver_five_epochs_witness:
  "fst (driver ex_model ex_optimizer ex_loss ex_torch ex_loader ex_loader ex_world) = Inr ()
   \<and> filter top_level
        (trace (snd (driver ex_model ex_optimizer ex_loss ex_torch ex_loader ex_loader ex_world))) =
       [NewOptimizer, NewLoss,
        CallTrain ex_loader, CallTest ex_loader, CallTrain ex_loader, CallTest ex_loader,
        CallTrain ex_loader, CallTest ex_loader, CallTrain ex_loader, CallTest ex_loader,
        CallTrain ex_loader, CallTest ex_loader]
   \<and> driver ex_model ex_optimizer ex_loss ex_torch ex_loader ex_loader ex_world =
       run_epochs ex_model ex_loss ex_optimizer ex_torch ex_loader ex_loader [0, 1, 2, 3, 4]
         (ex_world\<lparr>opt_state := 0, trace := [NewOptimizer, NewLoss, ModelToDevice]\<rparr>)"
proof -
  have five: "replicate 5 x = [x, x, x, x, x]" for x :: "event list"
    by (simp add: numeral_eq_Suc)
  have init: "opt_init ex_optimizer (params ex_world) = Inr 0"
    by (simp add: ex_optimizer_def)
  note claim = driver_five_epochs[OF prod.collapse[symmetric], where model = ex_model
      and adam = ex_optimizer and bce = ex_loss and T = ex_torch and tr = ex_loader
      and te = ex_loader and w = ex_world]
  from claim[THEN conjunct1]
  have calls: "filter top_level
        (trace (snd (driver ex_model ex_optimizer ex_loss ex_torch ex_loader ex_loader ex_world))) =
       [NewOptimizer, NewLoss,
        CallTrain ex_loader, CallTest ex_loader, CallTrain ex_loader, CallTest ex_loader,
        CallTrain ex_loader, CallTest ex_loader, CallTrain ex_loader, CallTest ex_loader,
        CallTrain ex_loader, CallTest ex_loader]"
    by (auto simp: ex_driver_returns ex_world_trace five)
  from claim[THEN conjunct2]
  have run: "driver ex_model ex_optimizer ex_loss ex_torch ex_loader ex_loader ex_world =
       run_epochs ex_model ex_loss ex_optimizer ex_torch ex_loader ex_loader [0, 1, 2, 3, 4]
         (ex_world\<lparr>opt_state := 0, trace := [NewOptimizer, NewLoss, ModelToDevice]\<rparr>)"
    unfolding init by (simp add: ex_world_trace)
  show ?thesis by (rule conjI[OF ex_driver_returns conjI[OF calls run]])
qed

text \<open>
  \<^bold>\<open>C4.\<close>  For every input token-index sequence and length vector, the model's forward pass
  equals the composition: embedding lookup on the token indices, then the recurrent encoder
  producing a final hidden state, then the linear layer projecting that state to a single
  logit.  The three stages are chained so that the first exception ends the pass; the
  model object's forward method is this function in either mode; and for the model built
  by the fourth cell (\<^verbatim>\<open>output_size=1\<close>) every output holds exactly one logit per sequence.
\<close>

theorem forward_is_composition:
  "LSTMModel_forward N p token_indices lengths =
     bindE (embedding_lookup p token_indices) (\<lambda>embeddings.
     bindE (recurrent_encoder N p lengths embeddings) (\<lambda>hidden.
     linear_projection p hidden))
   \<and> forward (LSTMModel N) p mode token_indices lengths =
       LSTMModel_forward N p token_indices lengths
   \<and> (make_model rng v = Inr p \<longrightarrow> LSTMModel_forward N p token_indices lengths = Inr y \<longrightarrow>
        single_logits y)"
proof (intro conjI impI)
  show "LSTMModel_forward N p token_indices lengths =
     bindE (embedding_lookup p token_indices) (\<lambda>embeddings.
     bindE (recurrent_encoder N p lengths embeddings) (\<lambda>hidden.
     linear_projection p hidden))"
    unfolding LSTMModel_forward_def embedding_lookup_def recurrent_encoder_def
      linear_projection_def
    by (auto simp: bindE_def split: sum.splits prod.splits)
  show "forward (LSTMModel N) p mode token_indices lengths =
       LSTMModel_forward N p token_indices lengths"
    by (simp add: LSTMModel_def)
  assume mk: "make_model rng v = Inr p" and fw: "LSTMModel_forward N p token_indices lengths = Inr y"
  from fw obtain hidden where "nn_linear (fc_weight p) (fc_bias p) hidden = Inr y"
    by (auto simp: LSTMModel_forward_def bindE_eq_Inr split: prod.splits)
  with make_model_fc[OF mk] show "single_logits y"
    by (auto intro: nn_linear_single)
qed

theorem forward_is_composition_witness:
  "make_model ex_initial ex_vocab = Inr ex_params
   \<and> LSTMModel_forward ex_nn ex_params [[2, 0], [1, 1]] [2, 1] =
       Inr (Tensor [Tensor [Tensor [Scalar (1 / 2)], Tensor [Scalar (1 / 2)]]])
   \<and> single_logits (Tensor [Tensor [Tensor [Scalar (1 / 2)], Tensor [Scalar (1 / 2)]]])"
  using forward_is_composition[of ex_nn ex_params "[[2, 0], [1, 1]]" "[2, 1]" True ex_initial
      ex_vocab "Tensor [Tensor [Tensor [Scalar (1 / 2)], Tensor [Scalar (1 / 2)]]]"]
  by (simp add: ex_make_model ex_forward)

text \<open>
  \<^bold>\<open>C5.\<close>  After model initialisation the vocabulary's 100-dimensional pretrained vectors
  have been copied into the embedding table, and the rows at the indices of the padding
  token and of the unknown token are both the zero vector of dimension 100.  For a
  vocabulary as the builder delivers it (one vector of dimension 100 per entry, the two
  special tokens among the entries) the fourth cell succeeds, and the table it leaves is
  the vocabulary's vectors with those two rows zeroed.
\<close>

theorem make_model_embedding:
  assumes "vocab_ok v"
  shows "\<exists>m. make_model rng v = Inr m
           \<and> embedding_weight m =
               (vectors v)[stoi v unk_token := replicate 100 0, stoi v pad_token := replicate 100 0]
           \<and> length (embedding_weight m) = length (itos v)
           \<and> list_all (\<lambda>row. length row = 100) (embedding_weight m)
           \<and> embedding_weight m ! stoi v unk_token = replicate 100 0
           \<and> embedding_weight m ! stoi v pad_token = replicate 100 0
           \<and> (\<forall>i < length (itos v). i \<noteq> stoi v unk_token \<and> i \<noteq> stoi v pad_token \<longrightarrow>
                 embedding_weight m ! i = vectors v ! i)"
proof -
  let ?n = "length (itos v)"
  let ?u = "stoi v unk_token" and ?p = "stoi v pad_token"
  let ?z = "replicate 100 (0::real)"
  from assms have len: "length (vectors v) = ?n" and u: "?u < ?n" and p: "?p < ?n"
    and rows: "\<And>i. i < ?n \<Longrightarrow> length (vectors v ! i) = 100"
    by (auto simp: vocab_ok_def list_all_length)
  let ?t0 = "(matrix_of ?n EMBEDDING_SIZE (embedding_initial rng))[?p := replicate EMBEDDING_SIZE 0]"
  have t0: "length ?t0 = ?n" "\<And>i. i < ?n \<Longrightarrow> length (?t0 ! i) = 100"
    using p by (simp_all add: length_matrix_of nth_matrix_of EMBEDDING_SIZE_def nth_list_update)
  have init: "LSTMModel_init rng ?n EMBEDDING_SIZE HIDDEN_SIZE 1 ?p =
      Inr \<lparr>embedding_weight = ?t0,
          rnn_weights = lstm_initial rng EMBEDDING_SIZE HIDDEN_SIZE,
          fc_weight = matrix_of 1 HIDDEN_SIZE (linear_weight_initial rng),
          fc_bias = map (linear_bias_initial rng) [0..<1]\<rparr>"
    using p by (simp add: LSTMModel_init_def Embedding_def)
  have copy: "tensor_copy ?t0 (vectors v) = Inr (vectors v)"
  proof (rule tensor_copy_same_shape)
    show "length (vectors v) = length ?t0" using t0(1) len by simp
    show "length (vectors v ! i) = length (?t0 ! i)" if "i < length ?t0" for i
      using that t0(1) t0(2)[of i] rows[of i] by simp
  qed
  have s1: "set_row (vectors v) ?u (replicate EMBEDDING_SIZE 0) = Inr ((vectors v)[?u := ?z])"
    using u by (simp add: set_row_same_width len rows EMBEDDING_SIZE_def)
  have s2: "set_row ((vectors v)[?u := ?z]) ?p (replicate EMBEDDING_SIZE 0)
              = Inr ((vectors v)[?u := ?z, ?p := ?z])"
    using p u by (simp add: set_row_same_width len rows EMBEDDING_SIZE_def nth_list_update)
  have mk: "make_model rng v =
      Inr \<lparr>embedding_weight = (vectors v)[?u := ?z, ?p := ?z],
          rnn_weights = lstm_initial rng EMBEDDING_SIZE HIDDEN_SIZE,
          fc_weight = matrix_of 1 HIDDEN_SIZE (linear_weight_initial rng),
          fc_bias = map (linear_bias_initial rng) [0..<1]\<rparr>"
    unfolding make_model_def init by (simp add: copy s1 s2)
  have all: "list_all (\<lambda>row. length row = 100) ((vectors v)[?u := ?z, ?p := ?z])"
    using rows len u p by (auto simp: list_all_length nth_list_update)
  show ?thesis
    using mk all u p len by (auto simp: nth_list_update)
qed

theorem make_model_embedding_witness:
  "vocab_ok ex_vocab
   \<and> (\<exists>m. make_model ex_initial ex_vocab = Inr m
          \<and> embedding_weight m = [replicate 100 0, replicate 100 0, replicate 100 3])"
proof -
  have ok: "vocab_ok ex_vocab"
    by (simp add: vocab_ok_def ex_vocab_def unk_token_def pad_token_def)
  from make_model_embedding[OF ok, of ex_initial] ok show ?thesis
    by (auto simp: ex_vocab_def unk_token_def pad_token_def)
qed

text \<open>
  \<^bold>\<open>C6.\<close>  The evaluation loop mirrors the training loop: for the same model state, the same
  mode and the same batches, \<open>test_model\<close> computes outputs, loss, loss sum and accuracy count
  by the formulas of \<open>train_model\<close>, and both divide the sums by the size of the data set.
  They differ in more than the gradients and the parameter updates that \<open>test_model\<close> leaves
  out: \<open>train_model\<close> runs the model in training mode and \<open>test_model\<close> in evaluation mode.
  Stated against \<open>epoch_metrics\<close>, which follows the specification's words:
  \<^item> the result of \<open>test_model\<close>, exception or pair, is \<open>epoch_metrics\<close> in evaluation mode with
    every batch run on the parameters the call started with;
  \<^item> when \<open>train_model\<close> returns, the line it has printed holds \<open>epoch_metrics\<close> in training
    mode with every batch run on the parameters the optimizer steps before it have left;
  \<^item> a training step that succeeds has accumulated what the evaluation step accumulates
    from the same state;
  \<^item> so with an optimizer that leaves the parameters where they are, and a model that
    does not depend on the mode, \<open>train_model\<close> prints exactly what \<open>test_model\<close> returns;
  \<^item> \<open>train_model\<close> leaves the model in training mode, \<open>test_model\<close> in evaluation mode;
  \<^item> the notebook's \<open>LSTMModel\<close> does not depend on the mode.
\<close>

theorem evaluation_mirrors_training:
  "fst (test_model model lf T dl1 w1) =
     bindE (epoch_metrics model lf T False (map (\<lambda>b. params w1) (batches dl1)) dl1)
       (\<lambda>(total_loss, total_acc). Inr (PyTuple [PyFloat total_loss, PyTensor total_acc]))
   \<and> (train_model model lf opt T dl2 w2 = (Inr v2, w2') \<longrightarrow>
      (\<exists>total_loss total_acc.
          epoch_metrics model lf T True
            (train_trajectory model lf opt T (batches dl2) (0, PyInt 0) (enter_train dl2 w2)) dl2
            = Inr (total_loss, total_acc)
        \<and> stdout w2' = stdout w2 @ [MetricsLine ''Train'' (PyFloat total_loss) (PyTensor total_acc)]))
   \<and> (train_batch model lf opt T b acc w3 = (Inr acc', w3') \<longrightarrow>
        fst (test_batch model lf T b acc w3) = Inr acc'
        \<and> batch_statistics model lf T (training w3) (params w3) b acc = Inr acc')
   \<and> ((\<forall>s p g s' p'. opt_step opt s p g = Inr (s', p') \<longrightarrow> p' = p) \<longrightarrow>
      (\<forall>p x l. forward model p True x l = forward model p False x l) \<longrightarrow>
      train_model model lf opt T dl4 w4 = (Inr v4, w4') \<longrightarrow>
      (\<exists>total_loss total_acc.
          fst (test_model model lf T dl4 w4)
            = Inr (PyTuple [PyFloat total_loss, PyTensor total_acc])
        \<and> stdout w4' = stdout w4 @ [MetricsLine ''Train'' (PyFloat total_loss) (PyTensor total_acc)]))
   \<and> training (snd (train_model model lf opt T dl2 w2))
   \<and> \<not> training (snd (test_model model lf T dl1 w1))
   \<and> forward (LSTMModel N) p True x l = forward (LSTMModel N) p False x l"
proof (intro conjI)
  show "fst (test_model model lf T dl1 w1) =
     bindE (epoch_metrics model lf T False (map (\<lambda>b. params w1) (batches dl1)) dl1)
       (\<lambda>(total_loss, total_acc). Inr (PyTuple [PyFloat total_loss, PyTensor total_acc]))"
    by (rule test_model_result)
  show "train_model model lf opt T dl2 w2 = (Inr v2, w2') \<longrightarrow>
      (\<exists>total_loss total_acc.
          epoch_metrics model lf T True
            (train_trajectory model lf opt T (batches dl2) (0, PyInt 0) (enter_train dl2 w2)) dl2
            = Inr (total_loss, total_acc)
        \<and> stdout w2' = stdout w2 @ [MetricsLine ''Train'' (PyFloat total_loss) (PyTensor total_acc)])"
    using train_model_metrics by blast
  show "train_batch model lf opt T b acc w3 = (Inr acc', w3') \<longrightarrow>
        fst (test_batch model lf T b acc w3) = Inr acc'
        \<and> batch_statistics model lf T (training w3) (params w3) b acc = Inr acc'"
    using train_batch_statistics[of model lf opt T b acc w3 acc' w3']
      test_batch_statistics[of model lf T b acc w3] by simp
  show "(\<forall>s p g s' p'. opt_step opt s p g = Inr (s', p') \<longrightarrow> p' = p) \<longrightarrow>
      (\<forall>p x l. forward model p True x l = forward model p False x l) \<longrightarrow>
      train_model model lf opt T dl4 w4 = (Inr v4, w4') \<longrightarrow>
      (\<exists>total_loss total_acc.
          fst (test_model model lf T dl4 w4)
            = Inr (PyTuple [PyFloat total_loss, PyTensor total_acc])
        \<and> stdout w4' = stdout w4 @ [MetricsLine ''Train'' (PyFloat total_loss) (PyTensor total_acc)])"
    using train_prints_what_test_returns[of opt model lf T dl4 w4 v4 w4'] by blast
  show "training (snd (train_model model lf opt T dl2 w2))"
    by (rule train_model_training)
  show "\<not> training (snd (test_model model lf T dl1 w1))"
    by (rule test_model_training)
  show "forward (LSTMModel N) p True x l = forward (LSTMModel N) p False x l"
    by (rule LSTMModel_mode)
qed

theorem evaluation_mirrors_training_witness:
  "fst (test_model ex_model ex_loss ex_torch ex_loader ex_world)
     = Inr (PyTuple [PyFloat 1, PyTensor (Scalar (1 / 2))])
   \<and> fst (train_model ex_model ex_loss ex_frozen_optimizer ex_torch ex_loader ex_world)
       = Inr PyNone
   \<and> stdout (snd (train_model ex_model ex_loss ex_frozen_optimizer ex_torch ex_loader ex_world))
       = [MetricsLine ''Train'' (PyFloat 1) (PyTensor (Scalar (1 / 2)))]
   \<and> fst (train_batch ex_model ex_loss ex_frozen_optimizer ex_torch ex_batch (0, PyInt 0) ex_world)
       = Inr (2, PyTensor (Scalar 1))
   \<and> fst (test_batch ex_model ex_loss ex_torch ex_batch (0, PyInt 0) ex_world)
       = Inr (2, PyTensor (Scalar 1))
   \<and> training (snd (train_model ex_model ex_loss ex_frozen_optimizer ex_torch ex_loader ex_world))
   \<and> \<not> training (snd (test_model ex_model ex_loss ex_torch ex_loader ex_world))"
proof -
  have test: "fst (test_model ex_model ex_loss ex_torch ex_loader ex_world)
                = Inr (PyTuple [PyFloat 1, PyTensor (Scalar (1 / 2))])"
    by (simp add: test_model_def test_batch_def comp_defs ex_defs ex_world_def torch_sum_def
        round_half_even_simps py_truediv_def tensor_div_def)
  have train: "fst (train_model ex_model ex_loss ex_frozen_optimizer ex_torch ex_loader ex_world)
                 = Inr PyNone"
    by (simp add: train_model_def train_batch_def comp_defs ex_defs ex_frozen_optimizer_def
        torch_sum_def py_truediv_def tensor_div_def)
  have batch: "fst (train_batch ex_model ex_loss ex_frozen_optimizer ex_torch ex_batch (0, PyInt 0)
                  ex_world) = Inr (2, PyTensor (Scalar 1))"
    by (simp add: train_batch_def comp_defs ex_defs ex_frozen_optimizer_def ex_world_def
        torch_sum_def round_half_even_simps)
  have frozen: "\<forall>s p g s' p'. opt_step ex_frozen_optimizer s p g = Inr (s', p') \<longrightarrow> p' = p"
    by (simp add: ex_frozen_optimizer_def)
  have mode: "\<forall>p x l. forward ex_model p True x l = forward ex_model p False x l"
    by (simp add: ex_model_def)
  from evaluation_mirrors_training[where model = ex_model and lf = ex_loss and T = ex_torch
      and opt = ex_frozen_optimizer and ?dl1.0 = ex_loader and ?w1.0 = ex_world
      and ?dl2.0 = ex_loader and ?w2.0 = ex_world and ?v2.0 = PyNone
      and ?w2'.0 = "snd (train_model ex_model ex_loss ex_frozen_optimizer ex_torch ex_loader
                           ex_world)"
      and ?dl4.0 = ex_loader and ?w4.0 = ex_world
      and ?v4.0 = PyNone
      and ?w4'.0 = "snd (train_model ex_model ex_loss ex_frozen_optimizer ex_torch ex_loader
                           ex_world)"
      and b = ex_batch and acc = "(0, PyInt 0)" and ?w3.0 = ex_world
      and acc' = "(2, PyTensor (Scalar 1))"
      and ?w3'.0 = "snd (train_batch ex_model ex_loss ex_frozen_optimizer ex_torch ex_batch
                           (0, PyInt 0) ex_world)"
      and N = ex_nn and p = ex_params and x = "[[2, 1]]" and l = "[1, 1]"]
  show ?thesis
    using test train batch frozen mode by (simp add: eq_fst_snd ex_world_def[THEN arg_cong, of stdout])
qed

text \<open>
  Without the hypothesis on the mode the two functions disagree even when no parameter
  moves: on a model whose output depends on the mode, with an optimizer whose step leaves
  the parameters where they are, from the same state and on the same loader \<open>test_model\<close>
  returns the loss 5 while \<open>train_model\<close> prints the loss 1, and the parameters after
  \<open>train_model\<close> are those before it.
\<close>

theorem evaluation_differs_by_mode:
  "fst (test_model ex_mode_model ex_loss ex_torch ex_loader ex_world)
     = Inr (PyTuple [PyFloat 5, PyTensor (Scalar (1 / 2))])
   \<and> fst (train_model ex_mode_model ex_loss ex_frozen_optimizer ex_torch ex_loader ex_world)
       = Inr PyNone
   \<and> stdout (snd (train_model ex_mode_model ex_loss ex_frozen_optimizer ex_torch ex_loader
                     ex_world))
       = [MetricsLine ''Train'' (PyFloat 1) (PyTensor (Scalar (1 / 2)))]
   \<and> params (snd (train_model ex_mode_model ex_loss ex_frozen_optimizer ex_torch ex_loader
                     ex_world))
       = params ex_world"
proof -
  have test: "fst (test_model ex_mode_model ex_loss ex_torch ex_loader ex_world)
     = Inr (PyTuple [PyFloat 5, PyTensor (Scalar (1 / 2))])"
    by (simp add: test_model_def test_batch_def comp_defs ex_mode_model_def ex_defs ex_world_def
        torch_sum_def round_half_even_simps py_truediv_def tensor_div_def)
  have train: "train_model ex_mode_model ex_loss ex_frozen_optimizer ex_torch ex_loader ex_world
     = (Inr PyNone,
        ex_world\<lparr>trace := [CallTrain ex_loader, ModeTrain, ZeroGrad,
                             Forward True ([[3, 4], [5, 1]], [2, 1]),
                             ComputeLoss (Tensor [Scalar 1, Scalar 0]), Backward, Step, Stats],
                  training := True, grads := Some 1, opt_state := 1,
                  stdout := [MetricsLine ''Train'' (PyFloat 1) (PyTensor (Scalar (1 / 2)))]\<rparr>)"
    by (simp add: train_model_def train_batch_def comp_defs ex_mode_model_def ex_defs
        ex_frozen_optimizer_def ex_world_def torch_sum_def round_half_even_simps py_truediv_def
        tensor_div_def)
  show ?thesis unfolding train by (simp add: test)
qed



text \<open>
  \<^bold>\<open>C8.\<close>  \<open>train_model\<close> returns no value (\<^verbatim>\<open>None\<close>) and only prints its epoch metrics,
  while \<open>test_model\<close> returns the pair \<^verbatim>\<open>(total_loss, total_acc)\<close>.  Whenever \<open>train_model\<close>
  returns, its value is \<open>PyNone\<close> and it has printed one line, with the totals of the
  statistics its steps have accumulated.  Whenever \<open>test_model\<close> returns, its value is the pair
  of the metrics of the loader on the parameters of the call, the two numbers on the one
  line it has printed; and it returns that pair whenever these metrics can be computed.
\<close>

theorem return_values:
  "(train_model model lf opt T dl1 w1 = (Inr v1, w1') \<longrightarrow>
      v1 = PyNone
      \<and> (\<exists>acc st total_loss total_acc.
            train_steps model lf opt T True (batches dl1)
              ((0, PyInt 0), params w1, grads w1, opt_state w1) = Inr (acc, st)
          \<and> epoch_totals acc (dataset_len dl1) = Inr (total_loss, total_acc)
          \<and> stdout w1' =
              stdout w1 @ [MetricsLine ''Train'' (PyFloat total_loss) (PyTensor total_acc)]))
   \<and> (test_model model lf T dl2 w2 = (Inr v2, w2') \<longrightarrow>
      (\<exists>total_loss total_acc.
            epoch_metrics model lf T False (map (\<lambda>b. params w2) (batches dl2)) dl2
              = Inr (total_loss, total_acc)
          \<and> v2 = PyTuple [PyFloat total_loss, PyTensor total_acc]
          \<and> stdout w2' =
              stdout w2 @ [MetricsLine ''Test'' (PyFloat total_loss) (PyTensor total_acc)]))
   \<and> fst (test_model model lf T dl2 w2) =
       bindE (epoch_metrics model lf T False (map (\<lambda>b. params w2) (batches dl2)) dl2)
         (\<lambda>(total_loss, total_acc). Inr (PyTuple [PyFloat total_loss, PyTensor total_acc]))"
proof (intro conjI impI)
  assume run: "train_model model lf opt T dl1 w1 = (Inr v1, w1')"
  from train_model_Inr[OF run] show "v1 = PyNone" by blast
  from train_model_prints[OF run]
  show "\<exists>acc st total_loss total_acc.
            train_steps model lf opt T True (batches dl1)
              ((0, PyInt 0), params w1, grads w1, opt_state w1) = Inr (acc, st)
          \<and> epoch_totals acc (dataset_len dl1) = Inr (total_loss, total_acc)
          \<and> stdout w1' =
              stdout w1 @ [MetricsLine ''Train'' (PyFloat total_loss) (PyTensor total_acc)]" .
next
  assume run: "test_model model lf T dl2 w2 = (Inr v2, w2')"
  from test_model_prints[OF run]
  show "\<exists>total_loss total_acc.
            epoch_metrics model lf T False (map (\<lambda>b. params w2) (batches dl2)) dl2
              = Inr (total_loss, total_acc)
          \<and> v2 = PyTuple [PyFloat total_loss, PyTensor total_acc]
          \<and> stdout w2' =
              stdout w2 @ [MetricsLine ''Test'' (PyFloat total_loss) (PyTensor total_acc)]" .
next
  show "fst (test_model model lf T dl2 w2) =
       bindE (epoch_metrics model lf T False (map (\<lambda>b. params w2) (batches dl2)) dl2)
         (\<lambda>(total_loss, total_acc). Inr (PyTuple [PyFloat total_loss, PyTensor total_acc]))"
    by (rule test_model_result)
qed

theorem return_values_witness:
  "fst (train_model ex_model ex_loss ex_optimizer ex_torch ex_loader ex_world) = Inr PyNone
   \<and> stdout (snd (train_model ex_model ex_loss ex_optimizer ex_torch ex_loader ex_world))
       = [MetricsLine ''Train'' (PyFloat 1) (PyTensor (Scalar (1 / 2)))]
   \<and> fst (test_model ex_model ex_loss ex_torch ex_loader ex_world)
       = Inr (PyTuple [PyFloat 1, PyTensor (Scalar (1 / 2))])
   \<and> stdout (snd (test_model ex_model ex_loss ex_torch ex_loader ex_world))
       = [MetricsLine ''Test'' (PyFloat 1) (PyTensor (Scalar (1 / 2)))]"
proof -
  have out: "stdout ex_world = []" by (simp add: ex_world_def)
  have totals: "epoch_totals (2, PyTensor (Scalar 1)) (dataset_len ex_loader)
                  = Inr (1, Scalar (1 / 2))"
    by (simp add: epoch_totals_def ex_loader_def py_truediv_def tensor_div_def)
  note claim = return_values[where model = ex_model and lf = ex_loss and opt = ex_optimizer
      and T = ex_torch and ?dl1.0 = ex_loader and ?dl2.0 = ex_loader
      and ?w1.0 = ex_world and ?w2.0 = ex_world
      and ?v1.0 = PyNone and ?v2.0 = "PyTuple [PyFloat 1, PyTensor (Scalar (1 / 2))]"
      and ?w1'.0 = "snd (train_model ex_model ex_loss ex_optimizer ex_torch ex_loader ex_world)"
      and ?w2'.0 = "snd (test_model ex_model ex_loss ex_torch ex_loader ex_world)"]
  from claim have test: "fst (test_model ex_model ex_loss ex_torch ex_loader ex_world)
       = Inr (PyTuple [PyFloat 1, PyTensor (Scalar (1 / 2))])"
    by (simp add: ex_epoch_metrics)
  from claim test show ?thesis
    by (simp add: eq_fst_snd ex_train_model_returns ex_train_steps ex_epoch_metrics totals out)
qed




text \<open>
  \<^bold>\<open>C10.\<close>  For an empty data loader, \<open>train_model\<close> and \<open>test_model\<close> do not report zero
  metrics but fail: the accuracy accumulator is still the Python integer 0, so
  \<^verbatim>\<open>current_acc.double()\<close> raises, and when the data set is empty as well the division by
  its length, which comes first, is a division by zero.  Nothing is printed.
\<close>

theorem empty_loader_fails:
  assumes "batches dl = []"
  shows "fst (train_model model lf opt T dl w)
           = Inl (if dataset_len dl = 0 then ZeroDivisionError else AttributeError)
       \<and> fst (test_model model lf T dl w)
           = Inl (if dataset_len dl = 0 then ZeroDivisionError else AttributeError)
       \<and> stdout (snd (train_model model lf opt T dl w)) = stdout w
       \<and> stdout (snd (test_model model lf T dl w)) = stdout w"
  using assms
  by (simp add: train_model_def test_model_def comp_defs py_truediv_def)

theorem empty_loader_fails_witness:
  "fst (train_model ex_model ex_loss ex_optimizer ex_torch (ex_empty_loader 3) ex_world)
     = Inl AttributeError
   \<and> fst (test_model ex_model ex_loss ex_torch (ex_empty_loader 3) ex_world) = Inl AttributeError
   \<and> fst (train_model ex_model ex_loss ex_optimizer ex_torch (ex_empty_loader 0) ex_world)
     = Inl ZeroDivisionError
   \<and> fst (test_model ex_model ex_loss ex_torch (ex_empty_loader 0) ex_world)
     = Inl ZeroDivisionError"
  using empty_loader_fails[of "ex_empty_loader 3" ex_model ex_loss ex_optimizer ex_torch ex_world]
    empty_loader_fails[of "ex_empty_loader 0" ex_model ex_loss ex_optimizer ex_torch ex_world]
  by (simp add: ex_empty_loader_def)

end
